theory Spec2Isabelle
  imports Main "HOL-Library.Word"
begin

unbundle bit_operations_syntax

section \<open>Status codes\<close>

text \<open>
  The values of \<^verbatim>\<open>lcb_STATUS\<close> that the operations of \<^verbatim>\<open>remove.cc\<close>,
  \<^verbatim>\<open>touch.cc\<close> and \<^verbatim>\<open>collections.cc\<close> return.
\<close>

datatype lcb_STATUS =
    LCB_SUCCESS
  | LCB_EINVAL
  | LCB_CLIENT_ENOMEM
  | LCB_CLIENT_ETMPFAIL
  | LCB_KEY_ENOENT
  | LCB_NOT_SUPPORTED
  | LCB_NO_MATCHING_SERVER
  | LCB_EMPTY_KEY

section \<open>Host and network byte order\<close>

text \<open>
  The request header is filled in as a C structure and copied into the packet buffer with
  \<^verbatim>\<open>memcpy\<close>, so the bytes on the wire are the memory image of its members on the host.
  The host's byte order is a parameter of the model. \<^verbatim>\<open>htons\<close>, \<^verbatim>\<open>ntohs\<close>,
  \<^verbatim>\<open>htonl\<close> and \<^verbatim>\<open>lcb_htonll\<close> swap the bytes on a little-endian host and are the
  identity on a big-endian one.
\<close>

datatype byteorder = LittleEndian | BigEndian

type_synonym byte = "8 word"

definition le16 :: "16 word \<Rightarrow> byte list" where
  "le16 x = [ucast x, ucast (drop_bit 8 x)]"

definition be16 :: "16 word \<Rightarrow> byte list" where
  "be16 x = [ucast (drop_bit 8 x), ucast x]"

definition le32 :: "32 word \<Rightarrow> byte list" where
  "le32 x = [ucast x, ucast (drop_bit 8 x), ucast (drop_bit 16 x), ucast (drop_bit 24 x)]"

definition be32 :: "32 word \<Rightarrow> byte list" where
  "be32 x = [ucast (drop_bit 24 x), ucast (drop_bit 16 x), ucast (drop_bit 8 x), ucast x]"

definition le64 :: "64 word \<Rightarrow> byte list" where
  "le64 x = [ucast x, ucast (drop_bit 8 x), ucast (drop_bit 16 x), ucast (drop_bit 24 x),
             ucast (drop_bit 32 x), ucast (drop_bit 40 x), ucast (drop_bit 48 x),
             ucast (drop_bit 56 x)]"

definition be64 :: "64 word \<Rightarrow> byte list" where
  "be64 x = rev (le64 x)"

text \<open>The memory image of an integer member on a host of the given byte order.\<close>

definition mem16 :: "byteorder \<Rightarrow> 16 word \<Rightarrow> byte list" where
  "mem16 bo x = (case bo of LittleEndian \<Rightarrow> le16 x | BigEndian \<Rightarrow> be16 x)"

definition mem32 :: "byteorder \<Rightarrow> 32 word \<Rightarrow> byte list" where
  "mem32 bo x = (case bo of LittleEndian \<Rightarrow> le32 x | BigEndian \<Rightarrow> be32 x)"

definition mem64 :: "byteorder \<Rightarrow> 64 word \<Rightarrow> byte list" where
  "mem64 bo x = (case bo of LittleEndian \<Rightarrow> le64 x | BigEndian \<Rightarrow> be64 x)"

definition bswap16 :: "16 word \<Rightarrow> 16 word" where
  "bswap16 x = push_bit 8 x OR drop_bit 8 x"

definition bswap32 :: "32 word \<Rightarrow> 32 word" where
  "bswap32 x = push_bit 24 x OR push_bit 16 (take_bit 8 (drop_bit 8 x))
                 OR push_bit 8 (take_bit 8 (drop_bit 16 x)) OR drop_bit 24 x"

definition bswap64 :: "64 word \<Rightarrow> 64 word" where
  "bswap64 x = push_bit 32 (ucast (bswap32 (ucast x))) OR ucast (bswap32 (ucast (drop_bit 32 x)))"

definition htons :: "byteorder \<Rightarrow> 16 word \<Rightarrow> 16 word" where
  "htons bo x = (case bo of LittleEndian \<Rightarrow> bswap16 x | BigEndian \<Rightarrow> x)"

definition ntohs :: "byteorder \<Rightarrow> 16 word \<Rightarrow> 16 word" where
  "ntohs bo x = (case bo of LittleEndian \<Rightarrow> bswap16 x | BigEndian \<Rightarrow> x)"

definition htonl :: "byteorder \<Rightarrow> 32 word \<Rightarrow> 32 word" where
  "htonl bo x = (case bo of LittleEndian \<Rightarrow> bswap32 x | BigEndian \<Rightarrow> x)"

definition lcb_htonll :: "byteorder \<Rightarrow> 64 word \<Rightarrow> 64 word" where
  "lcb_htonll bo x = (case bo of LittleEndian \<Rightarrow> bswap64 x | BigEndian \<Rightarrow> x)"


text \<open>Reading a big-endian byte sequence as a number: what the receiver of the wire bytes sees.\<close>

definition be_nat :: "byte list \<Rightarrow> nat" where
  "be_nat bs = foldl (\<lambda>a b. 256 * a + unat b) 0 bs"

text \<open>
  \<^verbatim>\<open>memcpy(dst, src, n)\<close> on a destination buffer: the first \<open>n\<close> bytes of the source
  replace the first \<open>n\<close> bytes of the destination.
\<close>

definition memcpy :: "byte list \<Rightarrow> byte list \<Rightarrow> nat \<Rightarrow> byte list" where
  "memcpy dst src n = take n src @ drop n dst"

section \<open>Protocol constants and structures\<close>

text \<open>
  Modelled from the spec: the header that declares the magic bytes, the opcodes, the data type
  and the request structures (\<^verbatim>\<open>protocol_binary.h\<close>) is not part of the sources. The spec
  (4.1, 6) fixes the layout: a 24-byte header of magic, opcode, key length, extras length, data
  type, vbucket, total body length, correlation id and CAS, with a magic byte that tells a request
  from an alternate request; a durability frame of a descriptor byte, a level byte and a two-byte
  timeout; for touch a 32-bit expiry. The numeric values are those of the memcached binary
  protocol.
\<close>

definition PROTOCOL_BINARY_REQ :: byte where
  "PROTOCOL_BINARY_REQ = 0x80"

definition PROTOCOL_BINARY_AREQ :: byte where
  "PROTOCOL_BINARY_AREQ = 0x08"

definition PROTOCOL_BINARY_RAW_BYTES :: byte where
  "PROTOCOL_BINARY_RAW_BYTES = 0x00"

definition PROTOCOL_BINARY_CMD_DELETE :: byte where
  "PROTOCOL_BINARY_CMD_DELETE = 0x04"

definition PROTOCOL_BINARY_CMD_TOUCH :: byte where
  "PROTOCOL_BINARY_CMD_TOUCH = 0x1c"

definition PROTOCOL_BINARY_CMD_COLLECTIONS_GET_MANIFEST :: byte where
  "PROTOCOL_BINARY_CMD_COLLECTIONS_GET_MANIFEST = 0xba"

definition PROTOCOL_BINARY_CMD_COLLECTIONS_GET_CID :: byte where
  "PROTOCOL_BINARY_CMD_COLLECTIONS_GET_CID = 0xbb"

record protocol_binary_request_header =
  req_magic :: byte
  req_opcode :: byte
  req_keylen :: "16 word"
  req_extlen :: byte
  req_datatype :: byte
  req_vbucket :: "16 word"
  req_bodylen :: "32 word"
  req_opaque :: "32 word"
  req_cas :: "64 word"

text \<open>\<^verbatim>\<open>hdr->bytes\<close>: the 24 bytes of the header as they lie in memory.\<close>

definition hdr_bytes :: "byteorder \<Rightarrow> protocol_binary_request_header \<Rightarrow> byte list" where
  "hdr_bytes bo h =
     [req_magic h, req_opcode h] @ mem16 bo (req_keylen h) @ [req_extlen h, req_datatype h]
       @ mem16 bo (req_vbucket h) @ mem32 bo (req_bodylen h) @ mem32 bo (req_opaque h)
       @ mem64 bo (req_cas h)"

text \<open>The initialiser \<^verbatim>\<open>{0}\<close>.\<close>

definition zero_header :: protocol_binary_request_header where
  "zero_header = \<lparr>req_magic = 0, req_opcode = 0, req_keylen = 0, req_extlen = 0,
     req_datatype = 0, req_vbucket = 0, req_bodylen = 0, req_opaque = 0, req_cas = 0\<rparr>"

text \<open>
  \<^verbatim>\<open>protocol_binary_request_delete\<close>: the header followed by the body, whose only member is
  the durability frame \<^verbatim>\<open>alt\<close>.
\<close>

record protocol_binary_request_delete =
  delete_header :: protocol_binary_request_header
  alt_meta :: byte
  alt_level :: byte
  alt_timeout :: "16 word"

definition delete_bytes :: "byteorder \<Rightarrow> protocol_binary_request_delete \<Rightarrow> byte list" where
  "delete_bytes bo r =
     hdr_bytes bo (delete_header r) @ [alt_meta r, alt_level r] @ mem16 bo (alt_timeout r)"

text \<open>
  \<^verbatim>\<open>protocol_binary_request_touch\<close>: the header followed by a body that is a union of
  \<^verbatim>\<open>norm\<close> (the expiry) and \<^verbatim>\<open>alt\<close> (descriptor, level, timeout, expiry). The union is kept
  as its eight bytes of memory; assigning the members of one alternative overwrites the bytes they
  occupy.
\<close>

record protocol_binary_request_touch =
  touch_header :: protocol_binary_request_header
  touch_body :: "byte list"

definition touch_bytes :: "byteorder \<Rightarrow> protocol_binary_request_touch \<Rightarrow> byte list" where
  "touch_bytes bo r = hdr_bytes bo (touch_header r) @ touch_body r"

definition body_alt :: "byteorder \<Rightarrow> byte \<Rightarrow> byte \<Rightarrow> 16 word \<Rightarrow> 32 word \<Rightarrow> byte list" where
  "body_alt bo m l t e = [m, l] @ mem16 bo t @ mem32 bo e"

definition body_norm :: "byteorder \<Rightarrow> 32 word \<Rightarrow> byte list \<Rightarrow> byte list" where
  "body_norm bo e old = mem32 bo e @ drop 4 old"

section \<open>Packets, pipelines and the command queue\<close>

text \<open>
  Modelled from the spec: the request core (\<^verbatim>\<open>mcreq.h\<close>, \<^verbatim>\<open>mcreq.c\<close>) with the packet,
  pipeline and command-queue structures, \<^verbatim>\<open>mcreq_allocate_packet\<close>,
  \<^verbatim>\<open>mcreq_reserve_header\<close>, \<^verbatim>\<open>mcreq_reserve_key\<close>, \<^verbatim>\<open>mcreq_write_hdr\<close>,
  \<^verbatim>\<open>mcreq_basic_packet\<close> and \<^verbatim>\<open>LCB_SCHED_ADD\<close> is not part of the sources. The
  structures and functions of this section follow sections 3, 4.2 and 4.4 of the spec. Pointers
  to a pipeline are indices into the list of pipelines of the queue.
\<close>

type_synonym cookie = nat
type_synonym hrtime = "64 word"

text \<open>
  What the platform contributes to a call: the byte order of the host and the reading of the
  clock (\<^verbatim>\<open>gethrtime()\<close>).
\<close>

record platform =
  byte_order :: byteorder
  gethrtime :: hrtime

definition MCREQ_PKT_BASESIZE :: nat where
  "MCREQ_PKT_BASESIZE = 24"

definition MCREQ_F_NOCID :: "16 word" where
  "MCREQ_F_NOCID = push_bit 10 1"

definition MCREQ_BASICPACKET_F_FALLBACKOK :: nat where
  "MCREQ_BASICPACKET_F_FALLBACKOK = 1"

record mc_PACKET =
  opaque :: "32 word"
  flags :: "16 word"
  kh_span :: "byte list"
  reqdata_cookie :: cookie
  reqdata_start :: hrtime

text \<open>
  Modelled from the spec: a pipeline (3) has the counter of correlation ids, the packets sent and
  awaiting a reply, and the send queue. \<open>reqpool\<close> stands for the memory of its allocator: the
  number of packets it can still hand out.
\<close>

record mc_PIPELINE =
  seq :: "32 word"
  pending :: "mc_PACKET list"
  requests :: "mc_PACKET list"
  reqpool :: nat

text \<open>
  Modelled from the spec: the topology (4.4) maps a key to a vbucket and the index of the
  responsible server (negative when there is none); it is owned by a component outside this core.
\<close>

type_synonym lcbvb_CONFIG = "byte list \<Rightarrow> 16 word \<times> int"

text \<open>
  Modelled from the spec: the command queue (3, 4.4) has the topology reference (\<open>None\<close> is
  \<^verbatim>\<open>NULL\<close>), the pipelines (\<^verbatim>\<open>npipelines\<close> is the length of the list), the
  scheduling-batch flag and the staging list of an open batch, each packet tagged with the index
  of its pipeline. Of the instance, the operations read the queue, the \<^verbatim>\<open>use_collections\<close>
  setting and whether the cluster supports synchronous replication.
\<close>

record mc_CMDQUEUE =
  config :: "lcbvb_CONFIG option"
  pipelines :: "mc_PIPELINE list"
  ctxenter :: bool
  ctxqueued :: "(nat \<times> mc_PACKET) list"

record lcb_settings =
  use_collections :: bool

record lcb_INSTANCE =
  cmdq :: mc_CMDQUEUE
  settings :: lcb_settings
  syncreplication :: bool

definition LCBT_SUPPORT_SYNCREPLICATION :: "lcb_INSTANCE \<Rightarrow> bool" where
  "LCBT_SUPPORT_SYNCREPLICATION instance = syncreplication instance"

text \<open>
  Modelled from the spec: \<^verbatim>\<open>mcreq_allocate_packet\<close> (4.2) reserves a correlation id unique
  within the pipeline, from a counter that wraps around and skips the ids still pending, and an
  empty buffer; it fails (\<^verbatim>\<open>NULL\<close>) when the allocator has no memory left. The search
  starts at the counter and passes over at most as many ids as there are pending packets.
\<close>

fun skip_pending :: "nat \<Rightarrow> 32 word list \<Rightarrow> 32 word \<Rightarrow> 32 word" where
  "skip_pending 0 used s = s"
| "skip_pending (Suc n) used s = (if s \<in> set used then skip_pending n used (s + 1) else s)"

definition mcreq_allocate_packet :: "mc_PIPELINE \<Rightarrow> (mc_PACKET \<times> mc_PIPELINE) option" where
  "mcreq_allocate_packet pl =
     (if reqpool pl = 0 then None
      else
        let used = map opaque (pending pl);
            oid = skip_pending (length used) used (seq pl)
        in Some (\<lparr>opaque = oid, flags = 0, kh_span = [], reqdata_cookie = 0, reqdata_start = 0\<rparr>,
                 pl\<lparr>seq := oid + 1, reqpool := reqpool pl - 1\<rparr>))"

text \<open>
  Modelled from the spec: \<^verbatim>\<open>mcreq_reserve_header\<close> (4.2) grows the buffer of the packet to
  the size of the header.
\<close>

definition mcreq_reserve_header :: "mc_PACKET \<Rightarrow> nat \<Rightarrow> mc_PACKET" where
  "mcreq_reserve_header pkt hdrsize =
     pkt\<lparr>kh_span := kh_span pkt @ replicate (hdrsize - length (kh_span pkt)) 0\<rparr>"

text \<open>
  Modelled from the spec: the variable-length tag (4.2) that carries a numeric collection id in
  front of a key, seven bits to a byte, the low bits first.
\<close>

function leb128_encode :: "nat \<Rightarrow> byte list" where
  "leb128_encode n =
     (if n < 128 then [of_nat n] else of_nat (128 + n mod 128) # leb128_encode (n div 128))"
  by pat_completeness auto
termination
  by (relation "measure id") auto

declare leb128_encode.simps [simp del]

text \<open>
  Modelled from the spec: \<^verbatim>\<open>mcreq_reserve_key\<close> (4.2) grows the buffer to the size of
  header, frame and extras and appends the key, with the collection id as a tag in front unless
  none is given or the packet is flagged \<^verbatim>\<open>MCREQ_F_NOCID\<close>.
\<close>

definition mcreq_reserve_key ::
  "mc_PACKET \<Rightarrow> nat \<Rightarrow> byte list \<Rightarrow> 32 word option \<Rightarrow> mc_PACKET" where
  "mcreq_reserve_key pkt hdrsize key collection_id =
     (let tag = (case collection_id of
                   None \<Rightarrow> []
                 | Some c \<Rightarrow> if flags pkt AND MCREQ_F_NOCID \<noteq> 0 then []
                            else leb128_encode (unat c))
      in pkt\<lparr>kh_span := kh_span (mcreq_reserve_header pkt hdrsize) @ tag @ key\<rparr>)"

text \<open>
  Modelled from the spec: \<^verbatim>\<open>mcreq_write_hdr\<close> copies the 24 bytes of the header to the
  start of the buffer of the packet.
\<close>

definition mcreq_write_hdr ::
  "byteorder \<Rightarrow> mc_PACKET \<Rightarrow> protocol_binary_request_header \<Rightarrow> mc_PACKET" where
  "mcreq_write_hdr bo pkt hdr = pkt\<lparr>kh_span := memcpy (kh_span pkt) (hdr_bytes bo hdr) 24\<rparr>"

text \<open>
  Modelled from the spec: \<^verbatim>\<open>LCB_SCHED_ADD(instance, pl, pkt)\<close> (4.4). While a batch is open
  the packet goes to the staging list, otherwise to the send queue of its pipeline.
\<close>

definition LCB_SCHED_ADD :: "mc_CMDQUEUE \<Rightarrow> nat \<Rightarrow> mc_PACKET \<Rightarrow> mc_CMDQUEUE" where
  "LCB_SCHED_ADD cq pl pkt =
     (if ctxenter cq then cq\<lparr>ctxqueued := ctxqueued cq @ [(pl, pkt)]\<rparr>
      else cq\<lparr>pipelines :=
                (pipelines cq)[pl := (pipelines cq ! pl)\<lparr>requests := requests (pipelines cq ! pl) @ [pkt]\<rparr>]\<rparr>)"

text \<open>
  Modelled from the spec: the members that every key-value command has (6): CAS, expiry,
  collection id and key. A key buffer is the byte sequence it designates.
\<close>

record lcb_CMDBASE =
  cas :: "64 word"
  exptime :: "32 word"
  cid :: "32 word"
  key :: "byte list"

text \<open>
  Modelled from the spec: \<^verbatim>\<open>mcreq_basic_packet\<close> (4.4, 4.2) routes the key, fails with
  \<^verbatim>\<open>LCB_NO_MATCHING_SERVER\<close> when the topology is not known, when there is no pipeline or
  none for the key, allocates a packet on the responsible pipeline (\<^verbatim>\<open>LCB_CLIENT_ENOMEM\<close>
  when that fails), reserves header, frame, extras and key, and fills in the key length, the
  vbucket and the extras length of the header. The settings are those of the instance that owns
  the queue. The spec describes no fallback pipeline: the options are not looked at.
\<close>

definition mcreq_basic_packet ::
  "platform \<Rightarrow> lcb_settings \<Rightarrow> mc_CMDQUEUE \<Rightarrow> 'a lcb_CMDBASE_scheme
     \<Rightarrow> protocol_binary_request_header \<Rightarrow> byte \<Rightarrow> byte \<Rightarrow> nat
     \<Rightarrow> lcb_STATUS + (protocol_binary_request_header \<times> mc_PACKET \<times> nat \<times> mc_CMDQUEUE)" where
  "mcreq_basic_packet pf st queue cmd req extlen ffextlen options =
     (case config queue of
        None \<Rightarrow> Inl LCB_NO_MATCHING_SERVER
      | Some route \<Rightarrow>
          if length (pipelines queue) = 0 then Inl LCB_NO_MATCHING_SERVER
          else
            let (vb, srvix) = route (key cmd) in
            if \<not> (0 \<le> srvix \<and> srvix < int (length (pipelines queue)))
            then Inl LCB_NO_MATCHING_SERVER
            else
              (case mcreq_allocate_packet (pipelines queue ! nat srvix) of
                 None \<Rightarrow> Inl LCB_CLIENT_ENOMEM
               | Some (packet, pipeline) \<Rightarrow>
                   let hdrsize = 24 + unat extlen + unat ffextlen;
                       packet = mcreq_reserve_key packet hdrsize (key cmd)
                                  (if use_collections st then Some (cid cmd) else None);
                       req = req\<lparr>req_keylen :=
                                    htons (byte_order pf) (of_nat (length (kh_span packet) - hdrsize)),
                                  req_vbucket := htons (byte_order pf) vb,
                                  req_extlen := extlen\<rparr>
                   in Inr (req, packet, nat srvix,
                           queue\<lparr>pipelines := (pipelines queue)[nat srvix := pipeline]\<rparr>)))"

section \<open>Commands and responses\<close>

text \<open>
  Modelled from the spec: the command and response structures (\<^verbatim>\<open>internalstructs.h\<close>), the
  macro \<^verbatim>\<open>LCB_KEYBUF_IS_EMPTY\<close> and the response flags are not part of the sources.
  \<^verbatim>\<open>LCB_KEYBUF_IS_EMPTY\<close> tests the length of the key; a remove or touch command has the
  members of the command base, the durability level (one byte on the wire, zero for none) and the
  durability timeout (two bytes on the wire); both commands have the same members and share one
  record. The lookup command holds two pointer and length pairs; \<open>None\<close> is a null pointer. A
  response has its status and its flags, of which \<^verbatim>\<open>LCB_RESP_F_ERRINFO\<close> is one bit.
\<close>

definition LCB_KEYBUF_IS_EMPTY :: "byte list \<Rightarrow> bool" where
  "LCB_KEYBUF_IS_EMPTY k = (length k = 0)"

record lcb_CMDREMOVE = lcb_CMDBASE +
  dur_level :: byte
  dur_timeout :: "16 word"

type_synonym lcb_CMDTOUCH = lcb_CMDREMOVE

record lcb_CMDGETCID =
  scope :: "byte list option"
  nscope :: nat
  collection :: "byte list option"
  ncollection :: nat

type_synonym lcb_CMDGETMANIFEST = unit

record lcb_RESPBASE =
  rc :: lcb_STATUS
  rflags :: "16 word"

type_synonym lcb_RESPREMOVE = lcb_RESPBASE
type_synonym lcb_RESPTOUCH = lcb_RESPBASE

definition LCB_RESP_F_ERRINFO :: "16 word" where
  "LCB_RESP_F_ERRINFO = 0x20"

datatype lcb_CALLBACK_TYPE = LCB_CALLBACK_REMOVE | LCB_CALLBACK_TOUCH

section \<open>remove.cc\<close>

text \<open>
  The accessors take the helper \<^verbatim>\<open>lcb_resp_get_error_context\<close> (or
  \<^verbatim>\<open>lcb_resp_get_error_ref\<close>), which is defined elsewhere, as their first argument; it
  returns a string or \<^verbatim>\<open>NULL\<close>. The output arguments are passed in with their current
  contents and returned.
\<close>

definition lcb_respremove_error_context ::
  "(lcb_CALLBACK_TYPE \<Rightarrow> lcb_RESPREMOVE \<Rightarrow> string option) \<Rightarrow> lcb_RESPREMOVE
     \<Rightarrow> string option \<Rightarrow> nat \<Rightarrow> lcb_STATUS \<times> string option \<times> nat" where
  "lcb_respremove_error_context lcb_resp_get_error_context resp ctx ctx_len =
     (if rflags resp AND LCB_RESP_F_ERRINFO = 0 then (LCB_KEY_ENOENT, ctx, ctx_len)
      else
        (case lcb_resp_get_error_context LCB_CALLBACK_REMOVE resp of
           Some val \<Rightarrow> (LCB_SUCCESS, Some val, length val)
         | None \<Rightarrow> (LCB_SUCCESS, ctx, ctx_len)))"

definition lcb_respremove_error_ref ::
  "(lcb_CALLBACK_TYPE \<Rightarrow> lcb_RESPREMOVE \<Rightarrow> string option) \<Rightarrow> lcb_RESPREMOVE
     \<Rightarrow> string option \<Rightarrow> nat \<Rightarrow> lcb_STATUS \<times> string option \<times> nat" where
  "lcb_respremove_error_ref lcb_resp_get_error_ref resp ref ref_len =
     (if rflags resp AND LCB_RESP_F_ERRINFO = 0 then (LCB_KEY_ENOENT, ref, ref_len)
      else
        (case lcb_resp_get_error_ref LCB_CALLBACK_REMOVE resp of
           Some val \<Rightarrow> (LCB_SUCCESS, Some val, length val)
         | None \<Rightarrow> (LCB_SUCCESS, ref, ref_len)))"

text \<open>
  \<^verbatim>\<open>lcb_remove\<close>. The request starts as \<^verbatim>\<open>{0}\<close>. The tracing macros, which attach a
  span to the packet when a tracer is installed, are left out.
\<close>

definition lcb_remove ::
  "platform \<Rightarrow> lcb_INSTANCE \<Rightarrow> cookie \<Rightarrow> lcb_CMDREMOVE \<Rightarrow> lcb_STATUS \<times> lcb_INSTANCE" where
  "lcb_remove pf instance cookie cmd =
     (let cq = cmdq instance;
          req = \<lparr>delete_header = zero_header, alt_meta = 0, alt_level = 0, alt_timeout = 0\<rparr>;
          hdr = delete_header req;
          new_durability_supported = LCBT_SUPPORT_SYNCREPLICATION instance
      in
      if LCB_KEYBUF_IS_EMPTY (key cmd) then (LCB_EMPTY_KEY, instance)
      else if dur_level cmd \<noteq> 0 \<and> \<not> new_durability_supported then (LCB_NOT_SUPPORTED, instance)
      else
        let hdr = (if dur_level cmd \<noteq> 0 then hdr\<lparr>req_magic := PROTOCOL_BINARY_AREQ\<rparr> else hdr);
            ffextlen = (if dur_level cmd \<noteq> 0 then 4 else 0)
        in
        (case mcreq_basic_packet pf (settings instance) cq cmd hdr 0 ffextlen
                MCREQ_BASICPACKET_F_FALLBACKOK of
           Inl err \<Rightarrow> (err, instance)
         | Inr (hdr, pkt, pl, cq) \<Rightarrow>
             let hsize = unat (req_extlen hdr) + 24 + unat ffextlen;
                 hdr = hdr\<lparr>req_datatype := PROTOCOL_BINARY_RAW_BYTES\<rparr>;
                 hdr = hdr\<lparr>req_magic := PROTOCOL_BINARY_REQ\<rparr>;
                 hdr = hdr\<lparr>req_opcode := PROTOCOL_BINARY_CMD_DELETE\<rparr>;
                 hdr = hdr\<lparr>req_cas := lcb_htonll (byte_order pf) (cas cmd)\<rparr>;
                 hdr = hdr\<lparr>req_opaque := opaque pkt\<rparr>;
                 hdr = hdr\<lparr>req_bodylen :=
                             htonl (byte_order pf)
                               (ucast ffextlen + ucast (req_extlen hdr)
                                  + ucast (ntohs (byte_order pf) (req_keylen hdr)))\<rparr>;
                 req = req\<lparr>delete_header := hdr\<rparr>;
                 req = (if dur_level cmd \<noteq> 0 \<and> new_durability_supported
                        then req\<lparr>alt_meta := push_bit 4 1 OR 3,
                                 alt_level := dur_level cmd,
                                 alt_timeout := htons (byte_order pf) (dur_timeout cmd)\<rparr>
                        else req);
                 pkt = pkt\<lparr>reqdata_cookie := cookie\<rparr>;
                 pkt = pkt\<lparr>reqdata_start := gethrtime pf\<rparr>;
                 pkt = pkt\<lparr>kh_span := memcpy (kh_span pkt) (delete_bytes (byte_order pf) req) hsize\<rparr>
             in (LCB_SUCCESS, instance\<lparr>cmdq := LCB_SCHED_ADD cq pl pkt\<rparr>)))"


section \<open>touch.cc\<close>

definition lcb_resptouch_error_context ::
  "(lcb_CALLBACK_TYPE \<Rightarrow> lcb_RESPTOUCH \<Rightarrow> string option) \<Rightarrow> lcb_RESPTOUCH
     \<Rightarrow> string option \<Rightarrow> nat \<Rightarrow> lcb_STATUS \<times> string option \<times> nat" where
  "lcb_resptouch_error_context lcb_resp_get_error_context resp ctx ctx_len =
     (if rflags resp AND LCB_RESP_F_ERRINFO = 0 then (LCB_KEY_ENOENT, ctx, ctx_len)
      else
        (case lcb_resp_get_error_context LCB_CALLBACK_TOUCH resp of
           Some val \<Rightarrow> (LCB_SUCCESS, Some val, length val)
         | None \<Rightarrow> (LCB_SUCCESS, ctx, ctx_len)))"

definition lcb_resptouch_error_ref ::
  "(lcb_CALLBACK_TYPE \<Rightarrow> lcb_RESPTOUCH \<Rightarrow> string option) \<Rightarrow> lcb_RESPTOUCH
     \<Rightarrow> string option \<Rightarrow> nat \<Rightarrow> lcb_STATUS \<times> string option \<times> nat" where
  "lcb_resptouch_error_ref lcb_resp_get_error_ref resp ref ref_len =
     (if rflags resp AND LCB_RESP_F_ERRINFO = 0 then (LCB_KEY_ENOENT, ref, ref_len)
      else
        (case lcb_resp_get_error_ref LCB_CALLBACK_TOUCH resp of
           Some val \<Rightarrow> (LCB_SUCCESS, Some val, length val)
         | None \<Rightarrow> (LCB_SUCCESS, ref, ref_len)))"

text \<open>
  \<^verbatim>\<open>lcb_touch\<close>. The request \<^verbatim>\<open>tcmd\<close> is declared without an initialiser: the model
  takes its initial contents as an argument. The tracing macros are left out.
\<close>

definition lcb_touch ::
  "platform \<Rightarrow> protocol_binary_request_touch \<Rightarrow> lcb_INSTANCE \<Rightarrow> cookie \<Rightarrow> lcb_CMDTOUCH
     \<Rightarrow> lcb_STATUS \<times> lcb_INSTANCE" where
  "lcb_touch pf tcmd instance cookie cmd =
     (let hdr = touch_header tcmd;
          new_durability_supported = LCBT_SUPPORT_SYNCREPLICATION instance
      in
      if LCB_KEYBUF_IS_EMPTY (key cmd) then (LCB_EMPTY_KEY, instance)
      else if dur_level cmd \<noteq> 0 \<and> \<not> new_durability_supported then (LCB_NOT_SUPPORTED, instance)
      else
        let hdr = (if dur_level cmd \<noteq> 0 then hdr\<lparr>req_magic := PROTOCOL_BINARY_AREQ\<rparr> else hdr);
            ffextlen = (if dur_level cmd \<noteq> 0 then 4 else 0)
        in
        (case mcreq_basic_packet pf (settings instance) (cmdq instance) cmd hdr 4 ffextlen
                MCREQ_BASICPACKET_F_FALLBACKOK of
           Inl err \<Rightarrow> (err, instance)
         | Inr (hdr, pkt, pl, cq) \<Rightarrow>
             let hsize = unat (req_extlen hdr) + 24 + unat ffextlen;
                 hdr = hdr\<lparr>req_magic := PROTOCOL_BINARY_REQ\<rparr>;
                 hdr = hdr\<lparr>req_opcode := PROTOCOL_BINARY_CMD_TOUCH\<rparr>;
                 hdr = hdr\<lparr>req_cas := 0\<rparr>;
                 hdr = hdr\<lparr>req_datatype := PROTOCOL_BINARY_RAW_BYTES\<rparr>;
                 hdr = hdr\<lparr>req_opaque := opaque pkt\<rparr>;
                 hdr = hdr\<lparr>req_bodylen :=
                             htonl (byte_order pf)
                               (4 + ucast ffextlen
                                  + ucast (ntohs (byte_order pf) (req_keylen hdr)))\<rparr>;
                 tcmd = tcmd\<lparr>touch_header := hdr\<rparr>;
                 tcmd = (if dur_level cmd \<noteq> 0 \<and> new_durability_supported
                         then tcmd\<lparr>touch_body :=
                                body_alt (byte_order pf) (push_bit 4 1 OR 3) (dur_level cmd)
                                  (htons (byte_order pf) (dur_timeout cmd))
                                  (htonl (byte_order pf) (exptime cmd))\<rparr>
                         else tcmd\<lparr>touch_body :=
                                body_norm (byte_order pf) (htonl (byte_order pf) (exptime cmd))
                                  (touch_body tcmd)\<rparr>);
                 pkt = pkt\<lparr>kh_span := memcpy (kh_span pkt) (touch_bytes (byte_order pf) tcmd) hsize\<rparr>;
                 pkt = pkt\<lparr>reqdata_cookie := cookie\<rparr>;
                 pkt = pkt\<lparr>reqdata_start := gethrtime pf\<rparr>
             in (LCB_SUCCESS, instance\<lparr>cmdq := LCB_SCHED_ADD cq pl pkt\<rparr>)))"

section \<open>collections.cc\<close>

definition lcb_getmanifest ::
  "platform \<Rightarrow> lcb_INSTANCE \<Rightarrow> cookie \<Rightarrow> lcb_CMDGETMANIFEST \<Rightarrow> lcb_STATUS \<times> lcb_INSTANCE" where
  "lcb_getmanifest pf instance cookie cmd =
     (let cq = cmdq instance in
      if config cq = None then (LCB_CLIENT_ETMPFAIL, instance)
      else if \<not> use_collections (settings instance) then (LCB_NOT_SUPPORTED, instance)
      else if length (pipelines cq) < 1 then (LCB_NO_MATCHING_SERVER, instance)
      else
        (case mcreq_allocate_packet (pipelines cq ! 0) of
           None \<Rightarrow> (LCB_CLIENT_ENOMEM, instance)
         | Some (pkt, pl) \<Rightarrow>
             let cq = cq\<lparr>pipelines := (pipelines cq)[0 := pl]\<rparr>;
                 pkt = mcreq_reserve_header pkt MCREQ_PKT_BASESIZE;
                 hdr = zero_header;
                 hdr = hdr\<lparr>req_magic := PROTOCOL_BINARY_REQ\<rparr>;
                 hdr = hdr\<lparr>req_opcode := PROTOCOL_BINARY_CMD_COLLECTIONS_GET_MANIFEST\<rparr>;
                 hdr = hdr\<lparr>req_datatype := PROTOCOL_BINARY_RAW_BYTES\<rparr>;
                 hdr = hdr\<lparr>req_opaque := opaque pkt\<rparr>;
                 pkt = pkt\<lparr>kh_span := memcpy (kh_span pkt) (hdr_bytes (byte_order pf) hdr) 24\<rparr>;
                 pkt = pkt\<lparr>reqdata_cookie := cookie\<rparr>;
                 pkt = pkt\<lparr>reqdata_start := gethrtime pf\<rparr>
             in (LCB_SUCCESS, instance\<lparr>cmdq := LCB_SCHED_ADD cq 0 pkt\<rparr>)))"

text \<open>
  The path that \<^verbatim>\<open>lcb_getcid\<close> builds in a \<^verbatim>\<open>std::string\<close>: \<^verbatim>\<open>nscope\<close> bytes of the
  scope, a full stop, \<^verbatim>\<open>ncollection\<close> bytes of the collection. It is built only after
  the null pointers have been turned away.
\<close>

definition getcid_path :: "lcb_CMDGETCID \<Rightarrow> byte list" where
  "getcid_path cmd =
     [] @ (case scope cmd of None \<Rightarrow> [] | Some s \<Rightarrow> take (nscope cmd) s) @ [0x2E]
        @ (case collection cmd of None \<Rightarrow> [] | Some c \<Rightarrow> take (ncollection cmd) c)"

definition lcb_getcid ::
  "platform \<Rightarrow> lcb_INSTANCE \<Rightarrow> cookie \<Rightarrow> lcb_CMDGETCID \<Rightarrow> lcb_STATUS \<times> lcb_INSTANCE" where
  "lcb_getcid pf instance cookie cmd =
     (let cq = cmdq instance in
      if config cq = None then (LCB_CLIENT_ETMPFAIL, instance)
      else if \<not> use_collections (settings instance) then (LCB_NOT_SUPPORTED, instance)
      else if nscope cmd = 0 \<or> scope cmd = None \<or> ncollection cmd = 0 \<or> collection cmd = None
      then (LCB_EINVAL, instance)
      else if length (pipelines cq) < 1 then (LCB_NO_MATCHING_SERVER, instance)
      else
        (case mcreq_allocate_packet (pipelines cq ! 0) of
           None \<Rightarrow> (LCB_CLIENT_ENOMEM, instance)
         | Some (pkt, pl) \<Rightarrow>
             let cq = cq\<lparr>pipelines := (pipelines cq)[0 := pl]\<rparr>;
                 pkt = mcreq_reserve_header pkt MCREQ_PKT_BASESIZE;
                 path = getcid_path cmd;
                 key = path;
                 pkt = pkt\<lparr>flags := flags pkt OR MCREQ_F_NOCID\<rparr>;
                 pkt = mcreq_reserve_key pkt MCREQ_PKT_BASESIZE key (Some 0);
                 hdr = zero_header;
                 hdr = hdr\<lparr>req_magic := PROTOCOL_BINARY_REQ\<rparr>;
                 hdr = hdr\<lparr>req_opcode := PROTOCOL_BINARY_CMD_COLLECTIONS_GET_CID\<rparr>;
                 hdr = hdr\<lparr>req_datatype := PROTOCOL_BINARY_RAW_BYTES\<rparr>;
                 hdr = hdr\<lparr>req_opaque := opaque pkt\<rparr>;
                 hdr = hdr\<lparr>req_keylen := ntohs (byte_order pf) (of_nat (length path))\<rparr>;
                 hdr = hdr\<lparr>req_bodylen := htonl (byte_order pf) (of_nat (length path))\<rparr>;
                 pkt = mcreq_write_hdr (byte_order pf) pkt hdr;
                 pkt = pkt\<lparr>reqdata_cookie := cookie\<rparr>;
                 pkt = pkt\<lparr>reqdata_start := gethrtime pf\<rparr>
             in (LCB_SUCCESS, instance\<lparr>cmdq := LCB_SCHED_ADD cq 0 pkt\<rparr>)))"

section \<open>Observing a call\<close>

text \<open>
  \<open>handed_over cq cq' pl pkt\<close>: between the queue states \<open>cq\<close> and \<open>cq'\<close> the packet
  \<open>pkt\<close> was handed to pipeline \<open>pl\<close>: it is the new last element of the staging list when a
  batch is open, and of the send queue of the pipeline otherwise.
\<close>

definition handed_over :: "mc_CMDQUEUE \<Rightarrow> mc_CMDQUEUE \<Rightarrow> nat \<Rightarrow> mc_PACKET \<Rightarrow> bool" where
  "handed_over cq cq' pl pkt \<longleftrightarrow>
     pl < length (pipelines cq) \<and> length (pipelines cq') = length (pipelines cq) \<and>
     (if ctxenter cq
      then ctxqueued cq' = ctxqueued cq @ [(pl, pkt)]
      else requests (pipelines cq' ! pl) = requests (pipelines cq ! pl) @ [pkt])"


text \<open>
  The packet that a call left last in the send queue of the first pipeline, for looking at the
  result of a call on a concrete instance.
\<close>

definition sent :: "lcb_STATUS \<times> lcb_INSTANCE \<Rightarrow> mc_PACKET" where
  "sent r = last (requests (hd (pipelines (cmdq (snd r)))))"

section \<open>Concrete inputs\<close>

text \<open>
  A little-endian host; instances before bootstrap (no topology, no pipeline), with collections
  on or off; instances with
  one pipeline whose topology routes every key to it, with collections on or off and with or
  without synchronous replication; an instance whose pipeline cannot allocate; an instance with a
  topology but no pipeline.
\<close>

definition host :: platform where
  "host = \<lparr>byte_order = LittleEndian, gethrtime = 1000\<rparr>"

definition pipeline0 :: mc_PIPELINE where
  "pipeline0 = \<lparr>seq = 7, pending = [], requests = [], reqpool = 16\<rparr>"

definition route0 :: lcbvb_CONFIG where
  "route0 = (\<lambda>k. (5, 0))"

definition instance_unconfigured :: lcb_INSTANCE where
  "instance_unconfigured =
     \<lparr>cmdq = \<lparr>config = None, pipelines = [], ctxenter = False, ctxqueued = []\<rparr>,
      settings = \<lparr>use_collections = True\<rparr>, syncreplication = False\<rparr>"

definition instance_unconfigured_plain :: lcb_INSTANCE where
  "instance_unconfigured_plain =
     \<lparr>cmdq = \<lparr>config = None, pipelines = [], ctxenter = False, ctxqueued = []\<rparr>,
      settings = \<lparr>use_collections = False\<rparr>, syncreplication = False\<rparr>"

definition instance_collections :: lcb_INSTANCE where
  "instance_collections =
     \<lparr>cmdq = \<lparr>config = Some route0, pipelines = [pipeline0], ctxenter = False, ctxqueued = []\<rparr>,
      settings = \<lparr>use_collections = True\<rparr>, syncreplication = True\<rparr>"

definition instance_plain :: lcb_INSTANCE where
  "instance_plain =
     \<lparr>cmdq = \<lparr>config = Some route0, pipelines = [pipeline0], ctxenter = False, ctxqueued = []\<rparr>,
      settings = \<lparr>use_collections = False\<rparr>, syncreplication = True\<rparr>"

definition instance_no_syncrepl :: lcb_INSTANCE where
  "instance_no_syncrepl =
     \<lparr>cmdq = \<lparr>config = Some route0, pipelines = [pipeline0], ctxenter = False, ctxqueued = []\<rparr>,
      settings = \<lparr>use_collections = False\<rparr>, syncreplication = False\<rparr>"

definition pipeline_exhausted :: mc_PIPELINE where
  "pipeline_exhausted = \<lparr>seq = 7, pending = [], requests = [], reqpool = 0\<rparr>"

definition instance_exhausted :: lcb_INSTANCE where
  "instance_exhausted =
     \<lparr>cmdq = \<lparr>config = Some route0, pipelines = [pipeline_exhausted], ctxenter = False,
              ctxqueued = []\<rparr>,
      settings = \<lparr>use_collections = True\<rparr>, syncreplication = True\<rparr>"

definition instance_no_pipelines :: lcb_INSTANCE where
  "instance_no_pipelines =
     \<lparr>cmdq = \<lparr>config = Some route0, pipelines = [], ctxenter = False, ctxqueued = []\<rparr>,
      settings = \<lparr>use_collections = True\<rparr>, syncreplication = True\<rparr>"

text \<open>
  Commands on the key \<^verbatim>\<open>k\<close>: without durability, with level 1 as the setter
  \<^verbatim>\<open>lcb_cmdremove_durability\<close> leaves it (timeout 0), with level 1 and a timeout, and with an
  empty key.
\<close>

definition cmd_plain :: lcb_CMDREMOVE where
  "cmd_plain = \<lparr>cas = 0, exptime = 0x01020304, cid = 0, key = [0x6B],
                 dur_level = 0, dur_timeout = 0\<rparr>"

definition cmd_majority :: lcb_CMDREMOVE where
  "cmd_majority = \<lparr>cas = 0, exptime = 0x01020304, cid = 0, key = [0x6B],
                    dur_level = 1, dur_timeout = 0\<rparr>"

definition cmd_majority_timeout :: lcb_CMDREMOVE where
  "cmd_majority_timeout = \<lparr>cas = 0, exptime = 0x01020304, cid = 0, key = [0x6B],
                            dur_level = 1, dur_timeout = 0x0A0B\<rparr>"

definition cmd_empty_key :: lcb_CMDREMOVE where
  "cmd_empty_key = \<lparr>cas = 0, exptime = 0, cid = 0, key = [],
                     dur_level = 1, dur_timeout = 0\<rparr>"

text \<open>Some contents of the stack where \<^verbatim>\<open>lcb_touch\<close> places its request.\<close>

definition stack_touch :: protocol_binary_request_touch where
  "stack_touch =
     \<lparr>touch_header = \<lparr>req_magic = 0xAA, req_opcode = 0xAA, req_keylen = 0xAAAA, req_extlen = 0xAA,
        req_datatype = 0xAA, req_vbucket = 0xAAAA, req_bodylen = 0xAAAAAAAA,
        req_opaque = 0xAAAAAAAA, req_cas = 0xAAAAAAAAAAAAAAAA\<rparr>,
      touch_body = replicate 8 0xAA\<rparr>"

text \<open>
  Lookups: of \<^verbatim>\<open>s.c\<close>; with both names empty; with a scope name of 65535 bytes; with a
  scope name of 4294967295 bytes.
\<close>

definition getcid_s_c :: lcb_CMDGETCID where
  "getcid_s_c = \<lparr>scope = Some [0x73], nscope = 1, collection = Some [0x63], ncollection = 1\<rparr>"

definition getcid_empty :: lcb_CMDGETCID where
  "getcid_empty = \<lparr>scope = Some [], nscope = 0, collection = Some [], ncollection = 0\<rparr>"

definition getcid_long :: lcb_CMDGETCID where
  "getcid_long = \<lparr>scope = Some (replicate 65535 0x73), nscope = 65535,
                   collection = Some [0x63], ncollection = 1\<rparr>"

definition getcid_huge :: lcb_CMDGETCID where
  "getcid_huge = \<lparr>scope = Some (replicate 4294967295 0x73), nscope = 4294967295,
                   collection = Some [0x63], ncollection = 1\<rparr>"

text \<open>Responses with and without the error-info bit, and a helper that finds a string.\<close>

definition resp_plain :: lcb_RESPBASE where
  "resp_plain = \<lparr>rc = LCB_KEY_ENOENT, rflags = 0x01\<rparr>"

definition resp_errinfo :: lcb_RESPBASE where
  "resp_errinfo = \<lparr>rc = LCB_KEY_ENOENT, rflags = 0x21\<rparr>"

definition get_string :: "lcb_CALLBACK_TYPE \<Rightarrow> lcb_RESPBASE \<Rightarrow> string option" where
  "get_string t r = Some ''ctx''"

section \<open>Byte order: properties\<close>

lemma le16_bswap16: "le16 (bswap16 x) = be16 x"
  unfolding le16_def be16_def bswap16_def
  by simp (rule conjI; rule bit_word_eqI; auto simp: bit_simps)

lemma le32_bswap32: "le32 (bswap32 x) = be32 x"
  unfolding le32_def be32_def bswap32_def
  by simp (intro conjI; rule bit_word_eqI; auto simp: bit_simps)

lemma mem16_htons: "mem16 bo (htons bo x) = be16 x"
  by (cases bo) (simp_all add: mem16_def htons_def le16_bswap16)

lemma mem16_ntohs: "mem16 bo (ntohs bo x) = be16 x"
  by (cases bo) (simp_all add: mem16_def ntohs_def le16_bswap16)

lemma mem32_htonl: "mem32 bo (htonl bo x) = be32 x"
  by (cases bo) (simp_all add: mem32_def htonl_def le32_bswap32)

lemma length_mem16: "length (mem16 bo x) = 2"
  by (cases bo) (simp_all add: mem16_def le16_def be16_def)

lemma length_mem32: "length (mem32 bo x) = 4"
  by (cases bo) (simp_all add: mem32_def le32_def be32_def)

lemma length_mem64: "length (mem64 bo x) = 8"
  by (cases bo) (simp_all add: mem64_def le64_def be64_def)

lemma length_be16: "length (be16 x) = 2"
  by (simp add: be16_def)

lemma length_be32: "length (be32 x) = 4"
  by (simp add: be32_def)

lemma length_hdr_bytes: "length (hdr_bytes bo h) = 24"
  by (simp add: hdr_bytes_def length_mem16 length_mem32 length_mem64)

lemma unat_byte_of: "unat (ucast (drop_bit k (x :: 'a::len word)) :: byte) = (unat x div 2 ^ k) mod 256"
  by (simp only: unsigned_ucast_eq unat_drop_bit_eq) (simp add: take_bit_eq_mod drop_bit_eq_div)

lemma unat_byte_of0: "unat (ucast (x :: 'a::len word) :: byte) = unat x mod 256"
  by (simp add: unsigned_ucast_eq take_bit_eq_mod)

lemma be_nat_be16: "be_nat (be16 x) = unat x"
proof -
  have "unat x < 65536"
    using unsigned_less [of x, where ?'a = nat] by simp
  then have "unat x div 256 mod 256 = unat x div 256"
    by simp
  then show ?thesis
    using unat_byte_of [of 8 x] unat_byte_of0 [of x]
    by (simp add: be_nat_def be16_def)
qed

lemma be32_arith:
  fixes n :: nat
  assumes "n < 4294967296"
  shows "256 * (256 * (256 * (n div 16777216 mod 256) + n div 65536 mod 256)
           + n div 256 mod 256) + n mod 256 = n"
proof -
  have a: "n div 16777216 mod 256 = n div 16777216"
    using assms by simp
  have b: "n div 65536 = 256 * (n div 16777216) + n div 65536 mod 256"
    using div_mult2_eq [of n 65536 256] by (simp add: mult_div_mod_eq)
  have c: "n div 256 = 256 * (n div 65536) + n div 256 mod 256"
    using div_mult2_eq [of n 256 256] by (simp add: mult_div_mod_eq)
  have d: "n = 256 * (n div 256) + n mod 256"
    by simp
  show ?thesis
    using a b c d by simp
qed

lemma be_nat_be32: "be_nat (be32 x) = unat x"
proof -
  have "unat x < 4294967296"
    using unsigned_less [of x, where ?'a = nat] by simp
  from be32_arith [OF this] show ?thesis
    using unat_byte_of [of 8 x] unat_byte_of [of 16 x] unat_byte_of [of 24 x] unat_byte_of0 [of x]
    by (simp add: be_nat_def be32_def)
qed

section \<open>Buffers, headers and the request core: properties\<close>

lemma take_drop_memcpy:
  "n \<le> length src \<Longrightarrow> i + k \<le> n \<Longrightarrow> take k (drop i (memcpy dst src n)) = take k (drop i src)"
proof -
  assume a: "n \<le> length src" and b: "i + k \<le> n"
  have "take k (drop i (take n src @ drop n dst)) = take k (drop i (take n src))"
    using a b by simp
  also have "\<dots> = take k (take (n - i) (drop i src))"
    by (simp add: drop_take)
  also have "\<dots> = take k (drop i src)"
    using b by (simp add: min_def)
  finally show ?thesis
    by (simp add: memcpy_def)
qed

lemma drop_memcpy:
  "n \<le> length src \<Longrightarrow> n \<le> length dst \<Longrightarrow> drop n (memcpy dst src n) = drop n dst"
  by (simp add: memcpy_def)

lemma length_delete_bytes: "length (delete_bytes bo r) = 28"
  by (simp add: delete_bytes_def length_hdr_bytes length_mem16)

lemma hdr_bytes_magic: "take 1 (hdr_bytes bo h) = [req_magic h]"
  by (simp add: hdr_bytes_def)

lemma hdr_bytes_keylen: "take 2 (drop 2 (hdr_bytes bo h)) = mem16 bo (req_keylen h)"
  by (simp add: hdr_bytes_def length_mem16)

lemma hdr_bytes_extlen: "take 1 (drop 4 (hdr_bytes bo h)) = [req_extlen h]"
  by (simp add: hdr_bytes_def length_mem16)

lemma hdr_bytes_bodylen: "take 4 (drop 8 (hdr_bytes bo h)) = mem32 bo (req_bodylen h)"
  by (simp add: hdr_bytes_def length_mem16 length_mem32)

lemma hdr_bytes_opaque: "take 4 (drop 12 (hdr_bytes bo h)) = mem32 bo (req_opaque h)"
  by (simp add: hdr_bytes_def length_mem16 length_mem32)

lemma delete_bytes_head:
  "i + k \<le> 24 \<Longrightarrow> take k (drop i (delete_bytes bo r)) = take k (drop i (hdr_bytes bo (delete_header r)))"
  by (simp add: delete_bytes_def length_hdr_bytes)

lemma delete_bytes_frame:
  "drop 24 (delete_bytes bo r) = [alt_meta r, alt_level r] @ mem16 bo (alt_timeout r)"
  by (simp add: delete_bytes_def length_hdr_bytes)

lemma touch_bytes_head:
  "i + k \<le> 24 \<Longrightarrow> take k (drop i (touch_bytes bo r)) = take k (drop i (hdr_bytes bo (touch_header r)))"
  by (simp add: touch_bytes_def length_hdr_bytes)

lemma touch_bytes_body: "drop 24 (touch_bytes bo r) = touch_body r"
  by (simp add: touch_bytes_def length_hdr_bytes)

lemma length_touch_bytes: "length (touch_bytes bo r) = 24 + length (touch_body r)"
  by (simp add: touch_bytes_def length_hdr_bytes)

lemma mcreq_allocate_packet_Some:
  assumes "mcreq_allocate_packet p = Some (a, p')"
  shows "requests p' = requests p" and "pending p' = pending p" and "kh_span a = []" and "flags a = 0"
  using assms by (auto simp: mcreq_allocate_packet_def Let_def split: if_splits)

lemma mcreq_basic_packet_Inr:
  assumes "mcreq_basic_packet pf st q cmd req extlen ffextlen opts = Inr (h, pkt, pl, q')"
  shows "pl < length (pipelines q)"
    and "\<exists>a p'. mcreq_allocate_packet (pipelines q ! pl) = Some (a, p') \<and> opaque pkt = opaque a
           \<and> q' = q\<lparr>pipelines := (pipelines q)[pl := p']\<rparr>"
    and "req_extlen h = extlen"
    and "24 + unat extlen + unat ffextlen \<le> length (kh_span pkt)"
  using assms
  by (auto simp: mcreq_basic_packet_def mcreq_reserve_key_def mcreq_reserve_header_def Let_def
           dest: mcreq_allocate_packet_Some
           split: option.splits if_splits prod.splits)

lemma handed_over_LCB_SCHED_ADD:
  assumes "pl < length (pipelines q)" and "mcreq_allocate_packet (pipelines q ! pl) = Some (a, p')"
  shows "handed_over q (LCB_SCHED_ADD (q\<lparr>pipelines := (pipelines q)[pl := p']\<rparr>) pl pkt) pl pkt"
  using assms mcreq_allocate_packet_Some(1) [OF assms(2)]
  by (simp add: handed_over_def LCB_SCHED_ADD_def)

lemma basic_packet_handed_over:
  assumes "mcreq_basic_packet pf st q cmd req extlen ffextlen opts = Inr (h, pkt0, pl, q')"
  shows "handed_over q (LCB_SCHED_ADD q' pl pkt) pl pkt"
  using mcreq_basic_packet_Inr(1,2) [OF assms] handed_over_LCB_SCHED_ADD by blast

section \<open>Empty keys\<close>

text \<open>
  Claim C9. A remove or touch command whose key is empty is turned away with
  \<^verbatim>\<open>LCB_EMPTY_KEY\<close>: the test is the first of the function, before the durability check
  (the result does not depend on the durability level or on what the cluster supports) and before
  a packet is allocated or queued; the instance is returned as it was, so nothing is queued for
  which a completion could fire.
\<close>

theorem empty_key_rejected:
  fixes cmd :: lcb_CMDREMOVE
  assumes "key cmd = []"
  shows "lcb_remove pf inst ck cmd = (LCB_EMPTY_KEY, inst)
       \<and> lcb_touch pf tcmd inst ck cmd = (LCB_EMPTY_KEY, inst)"
  using assms by (simp add: lcb_remove_def lcb_touch_def LCB_KEYBUF_IS_EMPTY_def)

theorem empty_key_rejected_witness:
  "lcb_remove host instance_no_syncrepl 0 cmd_empty_key = (LCB_EMPTY_KEY, instance_no_syncrepl)
   \<and> lcb_touch host stack_touch instance_no_syncrepl 0 cmd_empty_key
       = (LCB_EMPTY_KEY, instance_no_syncrepl)
   \<and> dur_level cmd_empty_key \<noteq> 0 \<and> \<not> LCBT_SUPPORT_SYNCREPLICATION instance_no_syncrepl"
  using empty_key_rejected [of cmd_empty_key host instance_no_syncrepl 0 stack_touch]
  by (simp add: cmd_empty_key_def instance_no_syncrepl_def LCBT_SUPPORT_SYNCREPLICATION_def)

section \<open>Error context and error reference of a response\<close>

text \<open>
  Claim C10. When the flags of a remove or touch response do not include
  \<^verbatim>\<open>LCB_RESP_F_ERRINFO\<close>, the four accessors return \<^verbatim>\<open>LCB_KEY_ENOENT\<close> and the output
  string and length are as the caller passed them; an accessor returns \<^verbatim>\<open>LCB_SUCCESS\<close>
  exactly when the flag is present.
\<close>

theorem error_accessors_need_errinfo:
  "(rflags resp AND LCB_RESP_F_ERRINFO = 0 \<longrightarrow>
      lcb_respremove_error_context g resp out n = (LCB_KEY_ENOENT, out, n)
    \<and> lcb_respremove_error_ref g resp out n = (LCB_KEY_ENOENT, out, n)
    \<and> lcb_resptouch_error_context g resp out n = (LCB_KEY_ENOENT, out, n)
    \<and> lcb_resptouch_error_ref g resp out n = (LCB_KEY_ENOENT, out, n))
   \<and> (fst (lcb_respremove_error_context g resp out n) = LCB_SUCCESS
        \<longleftrightarrow> rflags resp AND LCB_RESP_F_ERRINFO \<noteq> 0)
   \<and> (fst (lcb_respremove_error_ref g resp out n) = LCB_SUCCESS
        \<longleftrightarrow> rflags resp AND LCB_RESP_F_ERRINFO \<noteq> 0)
   \<and> (fst (lcb_resptouch_error_context g resp out n) = LCB_SUCCESS
        \<longleftrightarrow> rflags resp AND LCB_RESP_F_ERRINFO \<noteq> 0)
   \<and> (fst (lcb_resptouch_error_ref g resp out n) = LCB_SUCCESS
        \<longleftrightarrow> rflags resp AND LCB_RESP_F_ERRINFO \<noteq> 0)"
  by (simp add: lcb_respremove_error_context_def lcb_respremove_error_ref_def
      lcb_resptouch_error_context_def lcb_resptouch_error_ref_def split: option.split)

theorem error_accessors_need_errinfo_witness:
  "rflags resp_plain AND LCB_RESP_F_ERRINFO = 0
   \<and> lcb_respremove_error_context get_string resp_plain (Some ''old'') 3
        = (LCB_KEY_ENOENT, Some ''old'', 3)
   \<and> lcb_respremove_error_ref get_string resp_plain (Some ''old'') 3
        = (LCB_KEY_ENOENT, Some ''old'', 3)
   \<and> lcb_resptouch_error_context get_string resp_plain (Some ''old'') 3
        = (LCB_KEY_ENOENT, Some ''old'', 3)
   \<and> lcb_resptouch_error_ref get_string resp_plain (Some ''old'') 3
        = (LCB_KEY_ENOENT, Some ''old'', 3)
   \<and> rflags resp_errinfo AND LCB_RESP_F_ERRINFO \<noteq> 0
   \<and> fst (lcb_respremove_error_context get_string resp_errinfo (Some ''old'') 3) = LCB_SUCCESS
   \<and> fst (lcb_respremove_error_ref get_string resp_errinfo (Some ''old'') 3) = LCB_SUCCESS
   \<and> fst (lcb_resptouch_error_context get_string resp_errinfo (Some ''old'') 3) = LCB_SUCCESS
   \<and> fst (lcb_resptouch_error_ref get_string resp_errinfo (Some ''old'') 3) = LCB_SUCCESS"
proof -
  have a: "rflags resp_plain AND LCB_RESP_F_ERRINFO = 0"
    by (simp add: resp_plain_def LCB_RESP_F_ERRINFO_def)
  have b: "rflags resp_errinfo AND LCB_RESP_F_ERRINFO \<noteq> 0"
    by (simp add: resp_errinfo_def LCB_RESP_F_ERRINFO_def)
  show ?thesis
    using a b
      error_accessors_need_errinfo [of resp_plain get_string "Some ''old''" 3]
      error_accessors_need_errinfo [of resp_errinfo get_string "Some ''old''" 3]
    by simp
qed

section \<open>Scheduling-time errors\<close>

lemma lcb_remove_error:
  "fst (lcb_remove pf inst ck cmd) \<noteq> LCB_SUCCESS \<Longrightarrow> snd (lcb_remove pf inst ck cmd) = inst"
  by (auto simp: lcb_remove_def Let_def split: sum.splits prod.splits if_splits)

lemma lcb_touch_error:
  "fst (lcb_touch pf tcmd inst ck cmd) \<noteq> LCB_SUCCESS
     \<Longrightarrow> snd (lcb_touch pf tcmd inst ck cmd) = inst"
  by (auto simp: lcb_touch_def Let_def split: sum.splits prod.splits if_splits)

lemma lcb_getcid_error:
  "fst (lcb_getcid pf inst ck cmd) \<noteq> LCB_SUCCESS \<Longrightarrow> snd (lcb_getcid pf inst ck cmd) = inst"
  by (auto simp: lcb_getcid_def Let_def split: option.splits prod.splits if_splits)

lemma lcb_getmanifest_error:
  "fst (lcb_getmanifest pf inst ck cmd) \<noteq> LCB_SUCCESS
     \<Longrightarrow> snd (lcb_getmanifest pf inst ck cmd) = inst"
  by (auto simp: lcb_getmanifest_def Let_def split: option.splits prod.splits if_splits)

lemma durability_unsupported:
  fixes cmd :: lcb_CMDREMOVE
  shows "key cmd \<noteq> [] \<Longrightarrow> dur_level cmd \<noteq> 0 \<Longrightarrow> \<not> LCBT_SUPPORT_SYNCREPLICATION inst \<Longrightarrow>
    lcb_remove pf inst ck cmd = (LCB_NOT_SUPPORTED, inst)
    \<and> lcb_touch pf tcmd inst ck cmd = (LCB_NOT_SUPPORTED, inst)"
  by (simp add: lcb_remove_def lcb_touch_def LCB_KEYBUF_IS_EMPTY_def)

text \<open>
  Claim C7. Whenever \<^verbatim>\<open>lcb_remove\<close>, \<^verbatim>\<open>lcb_touch\<close>, \<^verbatim>\<open>lcb_getcid\<close> or
  \<^verbatim>\<open>lcb_getmanifest\<close> returns a status other than success, the instance after the call is the
  instance before it: no packet was added to a pipeline or to the staging list, no correlation id
  was used up, and so nothing is queued for which a completion could fire. A remove or touch with
  a durability level on a cluster without synchronous replication is such a case: it returns
  \<^verbatim>\<open>LCB_NOT_SUPPORTED\<close>.
\<close>

theorem scheduling_errors_atomic:
  fixes rcmd :: lcb_CMDREMOVE
  shows
    "(fst (lcb_remove pf inst ck rcmd) \<noteq> LCB_SUCCESS
        \<longrightarrow> snd (lcb_remove pf inst ck rcmd) = inst)
   \<and> (fst (lcb_touch pf tcmd inst ck rcmd) \<noteq> LCB_SUCCESS
        \<longrightarrow> snd (lcb_touch pf tcmd inst ck rcmd) = inst)
   \<and> (fst (lcb_getcid pf inst ck gcmd) \<noteq> LCB_SUCCESS
        \<longrightarrow> snd (lcb_getcid pf inst ck gcmd) = inst)
   \<and> (fst (lcb_getmanifest pf inst ck mcmd) \<noteq> LCB_SUCCESS
        \<longrightarrow> snd (lcb_getmanifest pf inst ck mcmd) = inst)
   \<and> (key rcmd \<noteq> [] \<and> dur_level rcmd \<noteq> 0 \<and> \<not> LCBT_SUPPORT_SYNCREPLICATION inst \<longrightarrow>
        lcb_remove pf inst ck rcmd = (LCB_NOT_SUPPORTED, inst)
        \<and> lcb_touch pf tcmd inst ck rcmd = (LCB_NOT_SUPPORTED, inst))"
proof (intro conjI impI)
  assume "key rcmd \<noteq> [] \<and> dur_level rcmd \<noteq> 0 \<and> \<not> LCBT_SUPPORT_SYNCREPLICATION inst"
  then show "lcb_remove pf inst ck rcmd = (LCB_NOT_SUPPORTED, inst)"
    and "lcb_touch pf tcmd inst ck rcmd = (LCB_NOT_SUPPORTED, inst)"
    using durability_unsupported [of rcmd inst pf ck tcmd] by simp_all
qed (erule lcb_remove_error lcb_touch_error lcb_getcid_error lcb_getmanifest_error)+

theorem scheduling_errors_atomic_witness:
  "lcb_remove host instance_exhausted 0 cmd_plain = (LCB_CLIENT_ENOMEM, instance_exhausted)
   \<and> lcb_touch host stack_touch instance_exhausted 0 cmd_plain
        = (LCB_CLIENT_ENOMEM, instance_exhausted)
   \<and> lcb_getcid host instance_exhausted 0 getcid_s_c = (LCB_CLIENT_ENOMEM, instance_exhausted)
   \<and> lcb_getmanifest host instance_exhausted 0 () = (LCB_CLIENT_ENOMEM, instance_exhausted)
   \<and> key cmd_majority \<noteq> [] \<and> dur_level cmd_majority \<noteq> 0
   \<and> \<not> LCBT_SUPPORT_SYNCREPLICATION instance_no_syncrepl
   \<and> lcb_remove host instance_no_syncrepl 0 cmd_majority
        = (LCB_NOT_SUPPORTED, instance_no_syncrepl)
   \<and> lcb_touch host stack_touch instance_no_syncrepl 0 cmd_majority
        = (LCB_NOT_SUPPORTED, instance_no_syncrepl)"
proof -
  have r: "fst (lcb_remove host instance_exhausted 0 cmd_plain) = LCB_CLIENT_ENOMEM"
    by (simp add: lcb_remove_def instance_exhausted_def pipeline_exhausted_def cmd_plain_def
        route0_def mcreq_basic_packet_def mcreq_allocate_packet_def LCB_KEYBUF_IS_EMPTY_def)
  have t: "fst (lcb_touch host stack_touch instance_exhausted 0 cmd_plain) = LCB_CLIENT_ENOMEM"
    by (simp add: lcb_touch_def instance_exhausted_def pipeline_exhausted_def cmd_plain_def
        route0_def mcreq_basic_packet_def mcreq_allocate_packet_def LCB_KEYBUF_IS_EMPTY_def)
  have g: "fst (lcb_getcid host instance_exhausted 0 getcid_s_c) = LCB_CLIENT_ENOMEM"
    by (simp add: lcb_getcid_def instance_exhausted_def pipeline_exhausted_def getcid_s_c_def
        mcreq_allocate_packet_def)
  have m: "fst (lcb_getmanifest host instance_exhausted 0 ()) = LCB_CLIENT_ENOMEM"
    by (simp add: lcb_getmanifest_def instance_exhausted_def pipeline_exhausted_def
        mcreq_allocate_packet_def)
  have d: "key cmd_majority \<noteq> [] \<and> dur_level cmd_majority \<noteq> 0
           \<and> \<not> LCBT_SUPPORT_SYNCREPLICATION instance_no_syncrepl"
    by (simp add: cmd_majority_def instance_no_syncrepl_def LCBT_SUPPORT_SYNCREPLICATION_def)
  show ?thesis
    using r t g m d
      scheduling_errors_atomic [of host instance_exhausted 0 cmd_plain stack_touch getcid_s_c "()"]
      scheduling_errors_atomic [of host instance_no_syncrepl 0 cmd_majority stack_touch
        getcid_s_c "()"]
    by (simp add: prod_eq_iff)
qed

section \<open>The order of the checks in the collection operations\<close>

text \<open>
  Claim C4, as stated, fails: a lookup with both names empty on an instance whose
  \<^verbatim>\<open>use_collections\<close> setting is off returns \<^verbatim>\<open>LCB_NOT_SUPPORTED\<close>, because the
  configuration and the setting are tested before the names.
\<close>

theorem getcid_empty_names_counterexample:
  "(nscope getcid_empty = 0 \<or> scope getcid_empty = None)
   \<and> (ncollection getcid_empty = 0 \<or> collection getcid_empty = None)
   \<and> lcb_getcid host instance_plain 0 getcid_empty = (LCB_NOT_SUPPORTED, instance_plain)
   \<and> LCB_NOT_SUPPORTED \<noteq> LCB_EINVAL"
  by (simp add: lcb_getcid_def getcid_empty_def instance_plain_def)

text \<open>
  Claim C4, amended. On an instance that has a configuration and has \<^verbatim>\<open>use_collections\<close>
  enabled, every \<^verbatim>\<open>lcb_getcid\<close> call in which both the scope name and the collection name are
  empty or null returns \<^verbatim>\<open>LCB_EINVAL\<close>, and the instance is unchanged: no packet is allocated.
\<close>

theorem getcid_empty_names:
  assumes "config (cmdq inst) \<noteq> None" and "use_collections (settings inst)"
    and "nscope cmd = 0 \<or> scope cmd = None" and "ncollection cmd = 0 \<or> collection cmd = None"
  shows "lcb_getcid pf inst ck cmd = (LCB_EINVAL, inst)"
  using assms by (auto simp: lcb_getcid_def)

theorem getcid_empty_names_witness:
  "config (cmdq instance_collections) \<noteq> None \<and> use_collections (settings instance_collections)
   \<and> (nscope getcid_empty = 0 \<or> scope getcid_empty = None)
   \<and> (ncollection getcid_empty = 0 \<or> collection getcid_empty = None)
   \<and> lcb_getcid host instance_collections 0 getcid_empty = (LCB_EINVAL, instance_collections)"
proof -
  have a: "config (cmdq instance_collections) \<noteq> None"
    "use_collections (settings instance_collections)"
    by (simp_all add: instance_collections_def)
  have b: "nscope getcid_empty = 0 \<or> scope getcid_empty = None"
    "ncollection getcid_empty = 0 \<or> collection getcid_empty = None"
    by (simp_all add: getcid_empty_def)
  from getcid_empty_names [OF a b, of host 0] a b show ?thesis
    by simp
qed

text \<open>
  Claim C5, as stated, fails: before bootstrap the queue has no pipeline and no configuration,
  and both operations return \<^verbatim>\<open>LCB_CLIENT_ETMPFAIL\<close>, because the configuration is tested
  first.
\<close>

theorem no_pipelines_counterexample:
  "length (pipelines (cmdq instance_unconfigured)) = 0
   \<and> lcb_getmanifest host instance_unconfigured 0 ()
        = (LCB_CLIENT_ETMPFAIL, instance_unconfigured)
   \<and> lcb_getcid host instance_unconfigured 0 getcid_s_c
        = (LCB_CLIENT_ETMPFAIL, instance_unconfigured)
   \<and> LCB_CLIENT_ETMPFAIL \<noteq> LCB_NO_MATCHING_SERVER"
  by (simp add: lcb_getmanifest_def lcb_getcid_def instance_unconfigured_def)

text \<open>
  Claim C5, amended. On an instance that has a configuration and has \<^verbatim>\<open>use_collections\<close>
  enabled, every \<^verbatim>\<open>lcb_getmanifest\<close> call, and every \<^verbatim>\<open>lcb_getcid\<close> call with non-empty
  scope and collection names, made while the command queue has zero pipelines returns
  \<^verbatim>\<open>LCB_NO_MATCHING_SERVER\<close>, and the instance is unchanged: no packet is allocated or queued.
\<close>

theorem no_pipelines_no_matching_server:
  assumes "length (pipelines (cmdq inst)) = 0"
    and "config (cmdq inst) \<noteq> None" and "use_collections (settings inst)"
  shows "lcb_getmanifest pf inst ck mcmd = (LCB_NO_MATCHING_SERVER, inst)
       \<and> (nscope gcmd \<noteq> 0 \<and> scope gcmd \<noteq> None \<and> ncollection gcmd \<noteq> 0 \<and> collection gcmd \<noteq> None
            \<longrightarrow> lcb_getcid pf inst ck gcmd = (LCB_NO_MATCHING_SERVER, inst))"
  using assms by (auto simp: lcb_getmanifest_def lcb_getcid_def)

theorem no_pipelines_no_matching_server_witness:
  "length (pipelines (cmdq instance_no_pipelines)) = 0
   \<and> config (cmdq instance_no_pipelines) \<noteq> None
   \<and> use_collections (settings instance_no_pipelines)
   \<and> nscope getcid_s_c \<noteq> 0 \<and> scope getcid_s_c \<noteq> None
   \<and> ncollection getcid_s_c \<noteq> 0 \<and> collection getcid_s_c \<noteq> None
   \<and> lcb_getmanifest host instance_no_pipelines 0 ()
        = (LCB_NO_MATCHING_SERVER, instance_no_pipelines)
   \<and> lcb_getcid host instance_no_pipelines 0 getcid_s_c
        = (LCB_NO_MATCHING_SERVER, instance_no_pipelines)"
proof -
  have a: "length (pipelines (cmdq instance_no_pipelines)) = 0"
    "config (cmdq instance_no_pipelines) \<noteq> None"
    "use_collections (settings instance_no_pipelines)"
    by (simp_all add: instance_no_pipelines_def)
  have b: "nscope getcid_s_c \<noteq> 0 \<and> scope getcid_s_c \<noteq> None
           \<and> ncollection getcid_s_c \<noteq> 0 \<and> collection getcid_s_c \<noteq> None"
    by (simp add: getcid_s_c_def)
  from no_pipelines_no_matching_server [OF a, of host 0 "()" getcid_s_c] a b show ?thesis
    by simp
qed

text \<open>
  Claim C6, as stated, fails: on an instance without a configuration whose
  \<^verbatim>\<open>use_collections\<close> setting is off, both operations return \<^verbatim>\<open>LCB_CLIENT_ETMPFAIL\<close>.
\<close>

theorem collections_disabled_counterexample:
  "\<not> use_collections (settings instance_unconfigured_plain)
   \<and> lcb_getcid host instance_unconfigured_plain 0 getcid_s_c
        = (LCB_CLIENT_ETMPFAIL, instance_unconfigured_plain)
   \<and> lcb_getmanifest host instance_unconfigured_plain 0 ()
        = (LCB_CLIENT_ETMPFAIL, instance_unconfigured_plain)
   \<and> LCB_CLIENT_ETMPFAIL \<noteq> LCB_NOT_SUPPORTED"
  by (simp add: lcb_getmanifest_def lcb_getcid_def instance_unconfigured_plain_def)

text \<open>
  Claim C6, amended. On an instance that has a configuration and whose \<^verbatim>\<open>use_collections\<close>
  setting is disabled, every \<^verbatim>\<open>lcb_getcid\<close> and \<^verbatim>\<open>lcb_getmanifest\<close> call returns
  \<^verbatim>\<open>LCB_NOT_SUPPORTED\<close>, and the instance is unchanged: no packet is built.
\<close>

theorem collections_disabled_not_supported:
  assumes "\<not> use_collections (settings inst)" and "config (cmdq inst) \<noteq> None"
  shows "lcb_getcid pf inst ck gcmd = (LCB_NOT_SUPPORTED, inst)
       \<and> lcb_getmanifest pf inst ck mcmd = (LCB_NOT_SUPPORTED, inst)"
  using assms by (auto simp: lcb_getmanifest_def lcb_getcid_def)

theorem collections_disabled_not_supported_witness:
  "\<not> use_collections (settings instance_plain) \<and> config (cmdq instance_plain) \<noteq> None
   \<and> lcb_getcid host instance_plain 0 getcid_s_c = (LCB_NOT_SUPPORTED, instance_plain)
   \<and> lcb_getmanifest host instance_plain 0 () = (LCB_NOT_SUPPORTED, instance_plain)"
proof -
  have a: "\<not> use_collections (settings instance_plain)" "config (cmdq instance_plain) \<noteq> None"
    by (simp_all add: instance_plain_def)
  from collections_disabled_not_supported [OF a, of host 0 getcid_s_c "()"] a show ?thesis
    by simp
qed

section \<open>The packet of a successful call\<close>

lemma mcreq_basic_packet_Inl:
  assumes "mcreq_basic_packet pf st q cmd req extlen ffextlen opts = Inl e"
  shows "e = LCB_NO_MATCHING_SERVER \<or> e = LCB_CLIENT_ENOMEM"
  using assms
  by (auto simp: mcreq_basic_packet_def Let_def split: option.splits if_splits prod.splits)

lemma mcreq_basic_packet_kh_span:
  assumes "mcreq_basic_packet pf st q cmd req extlen ffextlen opts = Inr (h, pkt, pl, q')"
  shows "kh_span pkt = replicate (24 + unat extlen + unat ffextlen) 0
           @ (if use_collections st then leb128_encode (unat (cid cmd)) else []) @ key cmd"
  using assms
  by (auto simp: mcreq_basic_packet_def mcreq_reserve_key_def mcreq_reserve_header_def Let_def
           dest: mcreq_allocate_packet_Some
           split: option.splits if_splits prod.splits)

text \<open>
  A successful \<^verbatim>\<open>lcb_remove\<close> went through \<^verbatim>\<open>mcreq_basic_packet\<close>; with a durability
  level the frame length passed is 4, without it 0.
\<close>

lemma lcb_remove_success_durable:
  fixes cmd :: lcb_CMDREMOVE
  assumes "lcb_remove pf inst ck cmd = (LCB_SUCCESS, inst')" and "dur_level cmd \<noteq> 0"
  obtains h pkt0 pl q' where
    "mcreq_basic_packet pf (settings inst) (cmdq inst) cmd
       (zero_header\<lparr>req_magic := PROTOCOL_BINARY_AREQ\<rparr>) 0 4 MCREQ_BASICPACKET_F_FALLBACKOK
     = Inr (h, pkt0, pl, q')"
  using assms
  by (auto simp: lcb_remove_def Let_def dest: mcreq_basic_packet_Inl
      split: if_splits sum.splits prod.splits)

lemma lcb_remove_success_plain:
  fixes cmd :: lcb_CMDREMOVE
  assumes "lcb_remove pf inst ck cmd = (LCB_SUCCESS, inst')" and "dur_level cmd = 0"
  obtains h pkt0 pl q' where
    "mcreq_basic_packet pf (settings inst) (cmdq inst) cmd
       zero_header 0 0 MCREQ_BASICPACKET_F_FALLBACKOK
     = Inr (h, pkt0, pl, q')"
  using assms
  by (auto simp: lcb_remove_def Let_def dest: mcreq_basic_packet_Inl
      split: if_splits sum.splits prod.splits)

lemma lcb_touch_success_durable:
  fixes cmd :: lcb_CMDTOUCH
  assumes "lcb_touch pf tcmd inst ck cmd = (LCB_SUCCESS, inst')" and "dur_level cmd \<noteq> 0"
  obtains h pkt0 pl q' where
    "mcreq_basic_packet pf (settings inst) (cmdq inst) cmd
       ((touch_header tcmd)\<lparr>req_magic := PROTOCOL_BINARY_AREQ\<rparr>) 4 4
       MCREQ_BASICPACKET_F_FALLBACKOK
     = Inr (h, pkt0, pl, q')"
  using assms
  by (auto simp: lcb_touch_def Let_def dest: mcreq_basic_packet_Inl
      split: if_splits sum.splits prod.splits)

lemma lcb_touch_success_plain:
  fixes cmd :: lcb_CMDTOUCH
  assumes "lcb_touch pf tcmd inst ck cmd = (LCB_SUCCESS, inst')" and "dur_level cmd = 0"
  obtains h pkt0 pl q' where
    "mcreq_basic_packet pf (settings inst) (cmdq inst) cmd
       (touch_header tcmd) 4 0 MCREQ_BASICPACKET_F_FALLBACKOK
     = Inr (h, pkt0, pl, q')"
  using assms
  by (auto simp: lcb_touch_def Let_def dest: mcreq_basic_packet_Inl
      split: if_splits sum.splits prod.splits)

lemma remove_frame:
  fixes cmd :: lcb_CMDREMOVE
  assumes ok: "lcb_remove pf inst ck cmd = (LCB_SUCCESS, inst')" and dur: "dur_level cmd \<noteq> 0"
  shows "\<exists>pl pkt. handed_over (cmdq inst) (cmdq inst') pl pkt
           \<and> take 4 (drop 24 (kh_span pkt))
               = [push_bit 4 1 OR 3, dur_level cmd] @ be16 (dur_timeout cmd)"
proof -
  from lcb_remove_success_durable [OF ok dur] obtain h pkt0 pl q' where
    bp: "mcreq_basic_packet pf (settings inst) (cmdq inst) cmd
           (zero_header\<lparr>req_magic := PROTOCOL_BINARY_AREQ\<rparr>) 0 4 MCREQ_BASICPACKET_F_FALLBACKOK
         = Inr (h, pkt0, pl, q')"
    by blast
  note facts = mcreq_basic_packet_Inr [OF bp]
  have "\<exists>pkt. cmdq inst' = LCB_SCHED_ADD q' pl pkt
          \<and> take 4 (drop 24 (kh_span pkt))
               = [push_bit 4 1 OR 3, dur_level cmd] @ be16 (dur_timeout cmd)"
    using ok dur bp facts(3,4)
    apply (clarsimp simp: lcb_remove_def Let_def split: if_splits)
    apply (rule exI, rule conjI, rule refl)
    apply (simp add: take_drop_memcpy length_delete_bytes delete_bytes_frame length_mem16
        mem16_htons length_be16)
    done
  then show ?thesis
    using basic_packet_handed_over [OF bp] by metis
qed

lemma touch_frame:
  fixes cmd :: lcb_CMDTOUCH
  assumes ok: "lcb_touch pf tcmd inst ck cmd = (LCB_SUCCESS, inst')" and dur: "dur_level cmd \<noteq> 0"
  shows "\<exists>pl pkt. handed_over (cmdq inst) (cmdq inst') pl pkt
           \<and> take 8 (drop 24 (kh_span pkt))
               = [push_bit 4 1 OR 3, dur_level cmd] @ be16 (dur_timeout cmd) @ be32 (exptime cmd)"
proof -
  from lcb_touch_success_durable [OF ok dur] obtain h pkt0 pl q' where
    bp: "mcreq_basic_packet pf (settings inst) (cmdq inst) cmd
           ((touch_header tcmd)\<lparr>req_magic := PROTOCOL_BINARY_AREQ\<rparr>) 4 4
           MCREQ_BASICPACKET_F_FALLBACKOK
         = Inr (h, pkt0, pl, q')"
    by blast
  note facts = mcreq_basic_packet_Inr [OF bp]
  have "\<exists>pkt. cmdq inst' = LCB_SCHED_ADD q' pl pkt
          \<and> take 8 (drop 24 (kh_span pkt))
               = [push_bit 4 1 OR 3, dur_level cmd] @ be16 (dur_timeout cmd) @ be32 (exptime cmd)"
    using ok dur bp facts(3,4)
    apply (clarsimp simp: lcb_touch_def Let_def split: if_splits)
    apply (rule exI, rule conjI, rule refl)
    apply (simp add: take_drop_memcpy length_touch_bytes touch_bytes_body body_alt_def
        length_mem16 length_mem32 mem16_htons mem32_htonl length_be16 length_be32)
    done
  then show ?thesis
    using basic_packet_handed_over [OF bp] by metis
qed

lemma touch_extras:
  fixes cmd :: lcb_CMDTOUCH
  assumes ok: "lcb_touch pf tcmd inst ck cmd = (LCB_SUCCESS, inst')" and dur: "dur_level cmd = 0"
  shows "\<exists>pl pkt. handed_over (cmdq inst) (cmdq inst') pl pkt
           \<and> take 1 (drop 4 (kh_span pkt)) = [4]
           \<and> take 4 (drop 24 (kh_span pkt)) = be32 (exptime cmd)
           \<and> drop 28 (kh_span pkt)
               = (if use_collections (settings inst) then leb128_encode (unat (cid cmd)) else [])
                   @ key cmd"
proof -
  from lcb_touch_success_plain [OF ok dur] obtain h pkt0 pl q' where
    bp: "mcreq_basic_packet pf (settings inst) (cmdq inst) cmd
           (touch_header tcmd) 4 0 MCREQ_BASICPACKET_F_FALLBACKOK
         = Inr (h, pkt0, pl, q')"
    by blast
  note facts = mcreq_basic_packet_Inr [OF bp]
  define ks where
    "ks = (if use_collections (settings inst) then leb128_encode (unat (cid cmd)) else [])
            @ key cmd"
  have span: "kh_span pkt0 = replicate 28 0 @ ks"
    using mcreq_basic_packet_kh_span [OF bp] by (simp add: ks_def)
  have "\<exists>pkt. cmdq inst' = LCB_SCHED_ADD q' pl pkt
          \<and> take 1 (drop 4 (kh_span pkt)) = [4]
          \<and> take 4 (drop 24 (kh_span pkt)) = be32 (exptime cmd)
          \<and> drop 28 (kh_span pkt) = ks"
    using ok dur bp facts(3,4)
    apply (clarsimp simp: lcb_touch_def Let_def split: if_splits)
    apply (rule exI, rule conjI, rule refl)
    apply (simp add: take_drop_memcpy drop_memcpy length_touch_bytes touch_bytes_body
        touch_bytes_head hdr_bytes_extlen [unfolded One_nat_def] body_norm_def
        length_mem16 length_mem32 mem16_htons mem32_htonl length_be16 length_be32 span)
    done
  then show ?thesis
    unfolding ks_def using basic_packet_handed_over [OF bp] by metis
qed

lemma remove_opaque:
  fixes cmd :: lcb_CMDREMOVE
  assumes ok: "lcb_remove pf inst ck cmd = (LCB_SUCCESS, inst')"
  shows "\<exists>pl pkt a p'. handed_over (cmdq inst) (cmdq inst') pl pkt
           \<and> mcreq_allocate_packet (pipelines (cmdq inst) ! pl) = Some (a, p')
           \<and> opaque pkt = opaque a
           \<and> take 4 (drop 12 (kh_span pkt)) = mem32 (byte_order pf) (opaque pkt)"
proof (cases "dur_level cmd = 0")
  case True
  from lcb_remove_success_plain [OF ok True] obtain h pkt0 pl q' where
    bp: "mcreq_basic_packet pf (settings inst) (cmdq inst) cmd
           zero_header 0 0 MCREQ_BASICPACKET_F_FALLBACKOK
         = Inr (h, pkt0, pl, q')"
    by blast
  note facts = mcreq_basic_packet_Inr [OF bp]
  have "\<exists>pkt. cmdq inst' = LCB_SCHED_ADD q' pl pkt \<and> opaque pkt = opaque pkt0
          \<and> take 4 (drop 12 (kh_span pkt)) = mem32 (byte_order pf) (opaque pkt)"
    using ok True bp facts(3,4)
    apply (clarsimp simp: lcb_remove_def Let_def split: if_splits)
    apply (rule exI, rule conjI, rule refl)
    apply (simp add: take_drop_memcpy length_delete_bytes delete_bytes_head hdr_bytes_opaque)
    done
  then show ?thesis
    using basic_packet_handed_over [OF bp] facts(2) by metis
next
  case False
  from lcb_remove_success_durable [OF ok False] obtain h pkt0 pl q' where
    bp: "mcreq_basic_packet pf (settings inst) (cmdq inst) cmd
           (zero_header\<lparr>req_magic := PROTOCOL_BINARY_AREQ\<rparr>) 0 4 MCREQ_BASICPACKET_F_FALLBACKOK
         = Inr (h, pkt0, pl, q')"
    by blast
  note facts = mcreq_basic_packet_Inr [OF bp]
  have "\<exists>pkt. cmdq inst' = LCB_SCHED_ADD q' pl pkt \<and> opaque pkt = opaque pkt0
          \<and> take 4 (drop 12 (kh_span pkt)) = mem32 (byte_order pf) (opaque pkt)"
    using ok False bp facts(3,4)
    apply (clarsimp simp: lcb_remove_def Let_def split: if_splits)
    apply (rule exI, rule conjI, rule refl)
    apply (simp add: take_drop_memcpy length_delete_bytes delete_bytes_head hdr_bytes_opaque)
    done
  then show ?thesis
    using basic_packet_handed_over [OF bp] facts(2) by metis
qed

lemma touch_opaque:
  fixes cmd :: lcb_CMDTOUCH
  assumes ok: "lcb_touch pf tcmd inst ck cmd = (LCB_SUCCESS, inst')"
  shows "\<exists>pl pkt a p'. handed_over (cmdq inst) (cmdq inst') pl pkt
           \<and> mcreq_allocate_packet (pipelines (cmdq inst) ! pl) = Some (a, p')
           \<and> opaque pkt = opaque a
           \<and> take 4 (drop 12 (kh_span pkt)) = mem32 (byte_order pf) (opaque pkt)"
proof (cases "dur_level cmd = 0")
  case True
  from lcb_touch_success_plain [OF ok True] obtain h pkt0 pl q' where
    bp: "mcreq_basic_packet pf (settings inst) (cmdq inst) cmd
           (touch_header tcmd) 4 0 MCREQ_BASICPACKET_F_FALLBACKOK
         = Inr (h, pkt0, pl, q')"
    by blast
  note facts = mcreq_basic_packet_Inr [OF bp]
  have "\<exists>pkt. cmdq inst' = LCB_SCHED_ADD q' pl pkt \<and> opaque pkt = opaque pkt0
          \<and> take 4 (drop 12 (kh_span pkt)) = mem32 (byte_order pf) (opaque pkt)"
    using ok True bp facts(3,4)
    apply (clarsimp simp: lcb_touch_def Let_def split: if_splits)
    apply (rule exI, rule conjI, rule refl)
    apply (simp add: take_drop_memcpy length_touch_bytes touch_bytes_head hdr_bytes_opaque
        body_norm_def length_mem32)
    done
  then show ?thesis
    using basic_packet_handed_over [OF bp] facts(2) by metis
next
  case False
  from lcb_touch_success_durable [OF ok False] obtain h pkt0 pl q' where
    bp: "mcreq_basic_packet pf (settings inst) (cmdq inst) cmd
           ((touch_header tcmd)\<lparr>req_magic := PROTOCOL_BINARY_AREQ\<rparr>) 4 4
           MCREQ_BASICPACKET_F_FALLBACKOK
         = Inr (h, pkt0, pl, q')"
    by blast
  note facts = mcreq_basic_packet_Inr [OF bp]
  have "\<exists>pkt. cmdq inst' = LCB_SCHED_ADD q' pl pkt \<and> opaque pkt = opaque pkt0
          \<and> take 4 (drop 12 (kh_span pkt)) = mem32 (byte_order pf) (opaque pkt)"
    using ok False bp facts(3,4)
    apply (clarsimp simp: lcb_touch_def Let_def split: if_splits)
    apply (rule exI, rule conjI, rule refl)
    apply (simp add: take_drop_memcpy length_touch_bytes touch_bytes_head hdr_bytes_opaque
        body_alt_def length_mem16 length_mem32)
    done
  then show ?thesis
    using basic_packet_handed_over [OF bp] facts(2) by metis
qed

text \<open>A successful \<^verbatim>\<open>lcb_getcid\<close> allocated its packet on the first pipeline.\<close>

lemma lcb_getcid_success:
  assumes "lcb_getcid pf inst ck cmd = (LCB_SUCCESS, inst')"
  obtains a p' s c where
    "0 < length (pipelines (cmdq inst))"
    "mcreq_allocate_packet (pipelines (cmdq inst) ! 0) = Some (a, p')"
    "scope cmd = Some s" "collection cmd = Some c"
  using assms
  by (auto simp: lcb_getcid_def Let_def split: if_splits option.splits prod.splits)

lemma MCREQ_F_NOCID_nonzero: "MCREQ_F_NOCID \<noteq> 0"
  by (simp add: MCREQ_F_NOCID_def)

lemma getcid_packet:
  assumes ok: "lcb_getcid pf inst ck cmd = (LCB_SUCCESS, inst')"
    and s: "scope cmd = Some s" and c: "collection cmd = Some c"
  shows "\<exists>pkt a p'. handed_over (cmdq inst) (cmdq inst') 0 pkt
           \<and> mcreq_allocate_packet (pipelines (cmdq inst) ! 0) = Some (a, p')
           \<and> opaque pkt = opaque a
           \<and> take 4 (drop 12 (kh_span pkt)) = mem32 (byte_order pf) (opaque pkt)
           \<and> drop 24 (kh_span pkt) = take (nscope cmd) s @ [0x2E] @ take (ncollection cmd) c
           \<and> flags pkt AND MCREQ_F_NOCID = MCREQ_F_NOCID
           \<and> take 2 (drop 2 (kh_span pkt))
               = be16 (of_nat (length (take (nscope cmd) s @ [0x2E] @ take (ncollection cmd) c)))
           \<and> take 4 (drop 8 (kh_span pkt))
               = be32 (of_nat (length (take (nscope cmd) s @ [0x2E] @ take (ncollection cmd) c)))"
proof -
  from lcb_getcid_success [OF ok] obtain a p' where
    len: "0 < length (pipelines (cmdq inst))"
    and alloc: "mcreq_allocate_packet (pipelines (cmdq inst) ! 0) = Some (a, p')"
    by blast
  note afacts = mcreq_allocate_packet_Some [OF alloc]
  define path where "path = take (nscope cmd) s @ [0x2E] @ take (ncollection cmd) c"
  have path: "getcid_path cmd = path"
    by (simp add: getcid_path_def path_def s c)
  have "\<exists>pkt. cmdq inst'
            = LCB_SCHED_ADD ((cmdq inst)\<lparr>pipelines := (pipelines (cmdq inst))[0 := p']\<rparr>) 0 pkt
          \<and> opaque pkt = opaque a
          \<and> take 4 (drop 12 (kh_span pkt)) = mem32 (byte_order pf) (opaque pkt)
          \<and> drop 24 (kh_span pkt) = path
          \<and> flags pkt AND MCREQ_F_NOCID = MCREQ_F_NOCID
          \<and> take 2 (drop 2 (kh_span pkt)) = be16 (of_nat (length path))
          \<and> take 4 (drop 8 (kh_span pkt)) = be32 (of_nat (length path))"
    using ok alloc afacts(3,4) path
    apply (clarsimp simp: lcb_getcid_def Let_def split: if_splits)
    apply (rule exI, rule conjI, rule refl)
    apply (simp add: mcreq_write_hdr_def mcreq_reserve_key_def mcreq_reserve_header_def
        MCREQ_PKT_BASESIZE_def MCREQ_F_NOCID_nonzero take_drop_memcpy drop_memcpy length_hdr_bytes
        hdr_bytes_opaque hdr_bytes_keylen hdr_bytes_bodylen mem16_ntohs mem32_htonl)
    done
  then obtain pkt where
    pk: "cmdq inst'
           = LCB_SCHED_ADD ((cmdq inst)\<lparr>pipelines := (pipelines (cmdq inst))[0 := p']\<rparr>) 0 pkt"
    and props: "opaque pkt = opaque a"
      "take 4 (drop 12 (kh_span pkt)) = mem32 (byte_order pf) (opaque pkt)"
      "drop 24 (kh_span pkt) = path"
      "flags pkt AND MCREQ_F_NOCID = MCREQ_F_NOCID"
      "take 2 (drop 2 (kh_span pkt)) = be16 (of_nat (length path))"
      "take 4 (drop 8 (kh_span pkt)) = be32 (of_nat (length path))"
    by blast
  have "handed_over (cmdq inst) (cmdq inst') 0 pkt"
    using handed_over_LCB_SCHED_ADD [OF len alloc, of pkt] pk by simp
  with alloc props show ?thesis
    unfolding path_def by blast
qed

lemmas call_defs =
  host_def LCB_KEYBUF_IS_EMPTY_def LCBT_SUPPORT_SYNCREPLICATION_def route0_def pipeline0_def
  mcreq_basic_packet_def mcreq_allocate_packet_def mcreq_reserve_key_def
  mcreq_reserve_header_def mcreq_write_hdr_def LCB_SCHED_ADD_def Let_def memcpy_def
  delete_bytes_def touch_bytes_def body_alt_def body_norm_def hdr_bytes_def zero_header_def
  mem16_def mem32_def mem64_def htons_def ntohs_def htonl_def lcb_htonll_def
  bswap16_def bswap32_def bswap64_def le16_def le32_def le64_def
  PROTOCOL_BINARY_REQ_def PROTOCOL_BINARY_AREQ_def PROTOCOL_BINARY_RAW_BYTES_def
  PROTOCOL_BINARY_CMD_DELETE_def PROTOCOL_BINARY_CMD_TOUCH_def
  PROTOCOL_BINARY_CMD_COLLECTIONS_GET_CID_def PROTOCOL_BINARY_CMD_COLLECTIONS_GET_MANIFEST_def
  MCREQ_BASICPACKET_F_FALLBACKOK_def MCREQ_PKT_BASESIZE_def MCREQ_F_NOCID_def getcid_path_def

section \<open>The durability frame\<close>

text \<open>
  Claim C2. After a successful remove or touch with a non-zero durability level (success implies
  that the cluster supports synchronous replication), the bytes of the packet that follow the
  24-byte header begin with the frame descriptor \<open>(1 << 4) | 3\<close>, the durability level, and
  the timeout in two bytes, big-endian; for touch the expiry follows in four bytes, big-endian.
  After a successful touch without a durability level, the extras length of the header is 4, the
  four bytes after the header are the expiry, big-endian, and the key section follows at once.
\<close>

theorem durability_frame_layout:
  fixes cmd :: lcb_CMDREMOVE
  shows
    "(lcb_remove pf inst ck cmd = (LCB_SUCCESS, inst1) \<and> dur_level cmd \<noteq> 0 \<longrightarrow>
        (\<exists>pl pkt. handed_over (cmdq inst) (cmdq inst1) pl pkt
           \<and> take 4 (drop 24 (kh_span pkt))
               = [push_bit 4 1 OR 3, dur_level cmd] @ be16 (dur_timeout cmd)))
   \<and> (lcb_touch pf tcmd inst ck cmd = (LCB_SUCCESS, inst2) \<and> dur_level cmd \<noteq> 0 \<longrightarrow>
        (\<exists>pl pkt. handed_over (cmdq inst) (cmdq inst2) pl pkt
           \<and> take 8 (drop 24 (kh_span pkt))
               = [push_bit 4 1 OR 3, dur_level cmd] @ be16 (dur_timeout cmd)
                   @ be32 (exptime cmd)))
   \<and> (lcb_touch pf tcmd inst ck cmd = (LCB_SUCCESS, inst2) \<and> dur_level cmd = 0 \<longrightarrow>
        (\<exists>pl pkt. handed_over (cmdq inst) (cmdq inst2) pl pkt
           \<and> take 1 (drop 4 (kh_span pkt)) = [4]
           \<and> take 4 (drop 24 (kh_span pkt)) = be32 (exptime cmd)
           \<and> drop 28 (kh_span pkt)
               = (if use_collections (settings inst) then leb128_encode (unat (cid cmd)) else [])
                   @ key cmd))"
proof (intro conjI impI)
  assume "lcb_remove pf inst ck cmd = (LCB_SUCCESS, inst1) \<and> dur_level cmd \<noteq> 0"
  then show "\<exists>pl pkt. handed_over (cmdq inst) (cmdq inst1) pl pkt
           \<and> take 4 (drop 24 (kh_span pkt))
               = [push_bit 4 1 OR 3, dur_level cmd] @ be16 (dur_timeout cmd)"
    using remove_frame by blast
next
  assume "lcb_touch pf tcmd inst ck cmd = (LCB_SUCCESS, inst2) \<and> dur_level cmd \<noteq> 0"
  then show "\<exists>pl pkt. handed_over (cmdq inst) (cmdq inst2) pl pkt
           \<and> take 8 (drop 24 (kh_span pkt))
               = [push_bit 4 1 OR 3, dur_level cmd] @ be16 (dur_timeout cmd)
                   @ be32 (exptime cmd)"
    using touch_frame by blast
next
  assume "lcb_touch pf tcmd inst ck cmd = (LCB_SUCCESS, inst2) \<and> dur_level cmd = 0"
  then show "\<exists>pl pkt. handed_over (cmdq inst) (cmdq inst2) pl pkt
           \<and> take 1 (drop 4 (kh_span pkt)) = [4]
           \<and> take 4 (drop 24 (kh_span pkt)) = be32 (exptime cmd)
           \<and> drop 28 (kh_span pkt)
               = (if use_collections (settings inst) then leb128_encode (unat (cid cmd)) else [])
                   @ key cmd"
    using touch_extras by blast
qed

theorem durability_frame_layout_witness:
  "lcb_remove host instance_plain 0 cmd_majority_timeout
     = (LCB_SUCCESS, snd (lcb_remove host instance_plain 0 cmd_majority_timeout))
   \<and> dur_level cmd_majority_timeout \<noteq> 0
   \<and> (\<exists>pl pkt. handed_over (cmdq instance_plain)
                  (cmdq (snd (lcb_remove host instance_plain 0 cmd_majority_timeout))) pl pkt
        \<and> take 4 (drop 24 (kh_span pkt)) = [0x13, 0x01, 0x0A, 0x0B])
   \<and> lcb_touch host stack_touch instance_plain 0 cmd_majority_timeout
       = (LCB_SUCCESS, snd (lcb_touch host stack_touch instance_plain 0 cmd_majority_timeout))
   \<and> (\<exists>pl pkt. handed_over (cmdq instance_plain)
                  (cmdq (snd (lcb_touch host stack_touch instance_plain 0 cmd_majority_timeout)))
                  pl pkt
        \<and> take 8 (drop 24 (kh_span pkt)) = [0x13, 0x01, 0x0A, 0x0B, 0x01, 0x02, 0x03, 0x04])
   \<and> lcb_touch host stack_touch instance_plain 0 cmd_plain
       = (LCB_SUCCESS, snd (lcb_touch host stack_touch instance_plain 0 cmd_plain))
   \<and> dur_level cmd_plain = 0
   \<and> (\<exists>pl pkt. handed_over (cmdq instance_plain)
                  (cmdq (snd (lcb_touch host stack_touch instance_plain 0 cmd_plain))) pl pkt
        \<and> take 1 (drop 4 (kh_span pkt)) = [4]
        \<and> take 4 (drop 24 (kh_span pkt)) = [0x01, 0x02, 0x03, 0x04]
        \<and> drop 28 (kh_span pkt) = [0x6B])"
proof -
  have r: "fst (lcb_remove host instance_plain 0 cmd_majority_timeout) = LCB_SUCCESS"
    by (simp add: lcb_remove_def instance_plain_def cmd_majority_timeout_def call_defs)
  have t: "fst (lcb_touch host stack_touch instance_plain 0 cmd_majority_timeout) = LCB_SUCCESS"
    by (simp add: lcb_touch_def instance_plain_def cmd_majority_timeout_def stack_touch_def
        call_defs)
  have p: "fst (lcb_touch host stack_touch instance_plain 0 cmd_plain) = LCB_SUCCESS"
    by (simp add: lcb_touch_def instance_plain_def cmd_plain_def stack_touch_def call_defs)
  have d: "dur_level cmd_majority_timeout \<noteq> 0" "dur_level cmd_plain = 0"
    by (simp_all add: cmd_majority_timeout_def cmd_plain_def)
  have v: "dur_timeout cmd_majority_timeout = 0x0A0B" "exptime cmd_majority_timeout = 0x01020304"
    "dur_level cmd_majority_timeout = 1" "exptime cmd_plain = 0x01020304" "key cmd_plain = [0x6B]"
    "\<not> use_collections (settings instance_plain)"
    by (simp_all add: cmd_majority_timeout_def cmd_plain_def instance_plain_def)
  have b: "be16 0x0A0B = [0x0A, 0x0B]" "be32 0x01020304 = [0x01, 0x02, 0x03, 0x04]"
    by (simp_all add: be16_def be32_def)
  show ?thesis
    using r t p d
      durability_frame_layout [of host instance_plain 0 cmd_majority_timeout
        "snd (lcb_remove host instance_plain 0 cmd_majority_timeout)" stack_touch
        "snd (lcb_touch host stack_touch instance_plain 0 cmd_majority_timeout)"]
      durability_frame_layout [of host instance_plain 0 cmd_plain
        "snd (lcb_remove host instance_plain 0 cmd_plain)" stack_touch
        "snd (lcb_touch host stack_touch instance_plain 0 cmd_plain)"]
    by (simp add: prod_eq_iff v b)
qed

section \<open>The correlation id on the wire\<close>

text \<open>
  Claim C8. After a successful \<^verbatim>\<open>lcb_getcid\<close>, \<^verbatim>\<open>lcb_remove\<close> or \<^verbatim>\<open>lcb_touch\<close>, the
  packet handed to the pipeline carries in the four bytes of the opaque field of its header
  (offset 12) the memory image of its own correlation id \<^verbatim>\<open>pkt->opaque\<close>, which is the id
  that packet allocation on that pipeline assigned.
\<close>

theorem opaque_on_wire:
  fixes rcmd :: lcb_CMDREMOVE
  shows
    "(lcb_getcid pf inst ck gcmd = (LCB_SUCCESS, inst1) \<longrightarrow>
        (\<exists>pl pkt a p'. handed_over (cmdq inst) (cmdq inst1) pl pkt
           \<and> mcreq_allocate_packet (pipelines (cmdq inst) ! pl) = Some (a, p')
           \<and> opaque pkt = opaque a
           \<and> take 4 (drop 12 (kh_span pkt)) = mem32 (byte_order pf) (opaque pkt)))
   \<and> (lcb_remove pf inst ck rcmd = (LCB_SUCCESS, inst2) \<longrightarrow>
        (\<exists>pl pkt a p'. handed_over (cmdq inst) (cmdq inst2) pl pkt
           \<and> mcreq_allocate_packet (pipelines (cmdq inst) ! pl) = Some (a, p')
           \<and> opaque pkt = opaque a
           \<and> take 4 (drop 12 (kh_span pkt)) = mem32 (byte_order pf) (opaque pkt)))
   \<and> (lcb_touch pf tcmd inst ck rcmd = (LCB_SUCCESS, inst3) \<longrightarrow>
        (\<exists>pl pkt a p'. handed_over (cmdq inst) (cmdq inst3) pl pkt
           \<and> mcreq_allocate_packet (pipelines (cmdq inst) ! pl) = Some (a, p')
           \<and> opaque pkt = opaque a
           \<and> take 4 (drop 12 (kh_span pkt)) = mem32 (byte_order pf) (opaque pkt)))"
proof (intro conjI impI)
  assume ok: "lcb_getcid pf inst ck gcmd = (LCB_SUCCESS, inst1)"
  from lcb_getcid_success [OF ok] obtain s c where
    "scope gcmd = Some s" and "collection gcmd = Some c"
    by blast
  from getcid_packet [OF ok this]
  show "\<exists>pl pkt a p'. handed_over (cmdq inst) (cmdq inst1) pl pkt
           \<and> mcreq_allocate_packet (pipelines (cmdq inst) ! pl) = Some (a, p')
           \<and> opaque pkt = opaque a
           \<and> take 4 (drop 12 (kh_span pkt)) = mem32 (byte_order pf) (opaque pkt)"
    by blast
next
  assume "lcb_remove pf inst ck rcmd = (LCB_SUCCESS, inst2)"
  then show "\<exists>pl pkt a p'. handed_over (cmdq inst) (cmdq inst2) pl pkt
           \<and> mcreq_allocate_packet (pipelines (cmdq inst) ! pl) = Some (a, p')
           \<and> opaque pkt = opaque a
           \<and> take 4 (drop 12 (kh_span pkt)) = mem32 (byte_order pf) (opaque pkt)"
    by (rule remove_opaque)
next
  assume "lcb_touch pf tcmd inst ck rcmd = (LCB_SUCCESS, inst3)"
  then show "\<exists>pl pkt a p'. handed_over (cmdq inst) (cmdq inst3) pl pkt
           \<and> mcreq_allocate_packet (pipelines (cmdq inst) ! pl) = Some (a, p')
           \<and> opaque pkt = opaque a
           \<and> take 4 (drop 12 (kh_span pkt)) = mem32 (byte_order pf) (opaque pkt)"
    by (rule touch_opaque)
qed

theorem opaque_on_wire_witness:
  "lcb_getcid host instance_collections 0 getcid_s_c
     = (LCB_SUCCESS, snd (lcb_getcid host instance_collections 0 getcid_s_c))
   \<and> (\<exists>pl pkt a p'.
         handed_over (cmdq instance_collections)
           (cmdq (snd (lcb_getcid host instance_collections 0 getcid_s_c))) pl pkt
         \<and> mcreq_allocate_packet (pipelines (cmdq instance_collections) ! pl) = Some (a, p')
         \<and> opaque pkt = opaque a
         \<and> take 4 (drop 12 (kh_span pkt)) = le32 (opaque pkt))
   \<and> lcb_remove host instance_collections 0 cmd_plain
       = (LCB_SUCCESS, snd (lcb_remove host instance_collections 0 cmd_plain))
   \<and> (\<exists>pl pkt a p'.
         handed_over (cmdq instance_collections)
           (cmdq (snd (lcb_remove host instance_collections 0 cmd_plain))) pl pkt
         \<and> mcreq_allocate_packet (pipelines (cmdq instance_collections) ! pl) = Some (a, p')
         \<and> opaque pkt = opaque a
         \<and> take 4 (drop 12 (kh_span pkt)) = le32 (opaque pkt))
   \<and> lcb_touch host stack_touch instance_collections 0 cmd_majority
       = (LCB_SUCCESS, snd (lcb_touch host stack_touch instance_collections 0 cmd_majority))
   \<and> (\<exists>pl pkt a p'.
         handed_over (cmdq instance_collections)
           (cmdq (snd (lcb_touch host stack_touch instance_collections 0 cmd_majority))) pl pkt
         \<and> mcreq_allocate_packet (pipelines (cmdq instance_collections) ! pl) = Some (a, p')
         \<and> opaque pkt = opaque a
         \<and> take 4 (drop 12 (kh_span pkt)) = le32 (opaque pkt))"
proof -
  have g: "fst (lcb_getcid host instance_collections 0 getcid_s_c) = LCB_SUCCESS"
    by (simp add: lcb_getcid_def instance_collections_def getcid_s_c_def call_defs)
  have r: "fst (lcb_remove host instance_collections 0 cmd_plain) = LCB_SUCCESS"
    by (simp add: lcb_remove_def instance_collections_def cmd_plain_def call_defs)
  have t: "fst (lcb_touch host stack_touch instance_collections 0 cmd_majority) = LCB_SUCCESS"
    by (simp add: lcb_touch_def instance_collections_def cmd_majority_def stack_touch_def
        call_defs)
  have m: "mem32 (byte_order host) = le32"
    by (rule ext) (simp add: host_def mem32_def)
  show ?thesis
    using g r t
      opaque_on_wire [of host instance_collections 0 getcid_s_c
        "snd (lcb_getcid host instance_collections 0 getcid_s_c)" cmd_plain
        "snd (lcb_remove host instance_collections 0 cmd_plain)" stack_touch
        "snd (lcb_touch host stack_touch instance_collections 0 cmd_plain)"]
      opaque_on_wire [of host instance_collections 0 getcid_s_c
        "snd (lcb_getcid host instance_collections 0 getcid_s_c)" cmd_majority
        "snd (lcb_remove host instance_collections 0 cmd_majority)" stack_touch
        "snd (lcb_touch host stack_touch instance_collections 0 cmd_majority)"]
    by (simp add: prod_eq_iff m)
qed

section \<open>The collection-id lookup packet\<close>

text \<open>
  Claim C3, as stated, fails. For a scope name of 65535 bytes and a collection name of one byte
  the path has 65537 bytes: the two bytes of the key-length field read 1, while the four bytes of
  the total-body-length field read 65537. For a scope name of 4294967295 bytes the path has
  4294967297 bytes, and the total-body-length field reads 1. The fields are 16 and 32 bits wide
  and \<^verbatim>\<open>lcb_getcid\<close> stores the length in them without a test.
\<close>

theorem getcid_key_length_counterexample:
  "nscope getcid_long \<noteq> 0 \<and> ncollection getcid_long \<noteq> 0
   \<and> fst (lcb_getcid host instance_collections 0 getcid_long) = LCB_SUCCESS
   \<and> length (drop 24 (kh_span (sent (lcb_getcid host instance_collections 0 getcid_long))))
       = 65537
   \<and> be_nat (take 2 (drop 2 (kh_span (sent (lcb_getcid host instance_collections 0 getcid_long)))))
       = 1
   \<and> be_nat (take 4 (drop 8 (kh_span (sent (lcb_getcid host instance_collections 0 getcid_long)))))
       = 65537
   \<and> nscope getcid_huge \<noteq> 0 \<and> ncollection getcid_huge \<noteq> 0
   \<and> fst (lcb_getcid host instance_collections 0 getcid_huge) = LCB_SUCCESS
   \<and> length (drop 24 (kh_span (sent (lcb_getcid host instance_collections 0 getcid_huge))))
       = 4294967297
   \<and> be_nat (take 4 (drop 8 (kh_span (sent (lcb_getcid host instance_collections 0 getcid_huge)))))
       = 1"
  by (simp add: lcb_getcid_def instance_collections_def getcid_long_def getcid_huge_def sent_def
      be_nat_def call_defs)

text \<open>
  Claim C3, amended. After a successful \<^verbatim>\<open>lcb_getcid\<close> (its scope and collection names are
  then non-empty), the key of the packet, which follows the 24-byte header, is the scope name,
  a full stop and the collection name, and the packet carries \<^verbatim>\<open>MCREQ_F_NOCID\<close>; the 16-bit
  key-length field of the header holds the length of that path, big-endian, when the path is
  shorter than 65536 bytes, and the 32-bit total-body-length field holds it, big-endian, when the
  path is shorter than 4294967296 bytes.
\<close>

theorem getcid_packet_layout:
  assumes "lcb_getcid pf inst ck cmd = (LCB_SUCCESS, inst')"
    and "scope cmd = Some s" and "collection cmd = Some c"
  shows "nscope cmd \<noteq> 0 \<and> ncollection cmd \<noteq> 0
       \<and> (\<exists>pl pkt. handed_over (cmdq inst) (cmdq inst') pl pkt
            \<and> drop 24 (kh_span pkt) = take (nscope cmd) s @ [0x2E] @ take (ncollection cmd) c
            \<and> flags pkt AND MCREQ_F_NOCID = MCREQ_F_NOCID \<and> MCREQ_F_NOCID \<noteq> 0
            \<and> (length (take (nscope cmd) s @ [0x2E] @ take (ncollection cmd) c) < 65536 \<longrightarrow>
                  be_nat (take 2 (drop 2 (kh_span pkt)))
                    = length (take (nscope cmd) s @ [0x2E] @ take (ncollection cmd) c))
            \<and> (length (take (nscope cmd) s @ [0x2E] @ take (ncollection cmd) c) < 4294967296
                  \<longrightarrow>
                  be_nat (take 4 (drop 8 (kh_span pkt)))
                    = length (take (nscope cmd) s @ [0x2E] @ take (ncollection cmd) c)))"
proof -
  define path where "path = take (nscope cmd) s @ [0x2E] @ take (ncollection cmd) c"
  have n: "nscope cmd \<noteq> 0 \<and> ncollection cmd \<noteq> 0"
    using assms(1) by (auto simp: lcb_getcid_def Let_def split: if_splits)
  from getcid_packet [OF assms] obtain pkt where
    h: "handed_over (cmdq inst) (cmdq inst') 0 pkt"
    and k: "drop 24 (kh_span pkt) = path"
    and f: "flags pkt AND MCREQ_F_NOCID = MCREQ_F_NOCID"
    and l2: "take 2 (drop 2 (kh_span pkt)) = be16 (of_nat (length path))"
    and l4: "take 4 (drop 8 (kh_span pkt)) = be32 (of_nat (length path))"
    unfolding path_def by blast
  have k2: "be_nat (take 2 (drop 2 (kh_span pkt))) = length path" if "length path < 65536"
    using that by (simp add: l2 be_nat_be16 unat_of_nat)
  have k4: "be_nat (take 4 (drop 8 (kh_span pkt))) = length path" if "length path < 4294967296"
    using that by (simp add: l4 be_nat_be32 unat_of_nat)
  from n h k f k2 k4 MCREQ_F_NOCID_nonzero show ?thesis
    unfolding path_def by blast
qed

theorem getcid_packet_layout_witness:
  "lcb_getcid host instance_collections 0 getcid_s_c
     = (LCB_SUCCESS, snd (lcb_getcid host instance_collections 0 getcid_s_c))
   \<and> scope getcid_s_c = Some [0x73] \<and> collection getcid_s_c = Some [0x63]
   \<and> (\<exists>pl pkt. handed_over (cmdq instance_collections)
                  (cmdq (snd (lcb_getcid host instance_collections 0 getcid_s_c))) pl pkt
        \<and> drop 24 (kh_span pkt) = [0x73, 0x2E, 0x63]
        \<and> flags pkt AND MCREQ_F_NOCID = MCREQ_F_NOCID
        \<and> be_nat (take 2 (drop 2 (kh_span pkt))) = 3
        \<and> be_nat (take 4 (drop 8 (kh_span pkt))) = 3)
   \<and> lcb_getcid host instance_collections 0 getcid_long
       = (LCB_SUCCESS, snd (lcb_getcid host instance_collections 0 getcid_long))
   \<and> (\<exists>pl pkt. handed_over (cmdq instance_collections)
                  (cmdq (snd (lcb_getcid host instance_collections 0 getcid_long))) pl pkt
        \<and> drop 24 (kh_span pkt) = replicate 65535 0x73 @ [0x2E, 0x63]
        \<and> flags pkt AND MCREQ_F_NOCID = MCREQ_F_NOCID
        \<and> be_nat (take 4 (drop 8 (kh_span pkt))) = 65537)"
proof -
  have g: "fst (lcb_getcid host instance_collections 0 getcid_s_c) = LCB_SUCCESS"
    by (simp add: lcb_getcid_def instance_collections_def getcid_s_c_def call_defs)
  have v: "scope getcid_s_c = Some [0x73]" "collection getcid_s_c = Some [0x63]"
    "nscope getcid_s_c = 1" "ncollection getcid_s_c = 1"
    by (simp_all add: getcid_s_c_def)
  have e: "lcb_getcid host instance_collections 0 getcid_s_c
             = (LCB_SUCCESS, snd (lcb_getcid host instance_collections 0 getcid_s_c))"
    using g by (simp add: prod_eq_iff)
  have gl: "fst (lcb_getcid host instance_collections 0 getcid_long) = LCB_SUCCESS"
    by (simp add: lcb_getcid_def instance_collections_def getcid_long_def call_defs)
  have vl: "scope getcid_long = Some (replicate 65535 0x73)" "collection getcid_long = Some [0x63]"
    "nscope getcid_long = 65535" "ncollection getcid_long = 1"
    by (simp_all add: getcid_long_def)
  have el: "lcb_getcid host instance_collections 0 getcid_long
             = (LCB_SUCCESS, snd (lcb_getcid host instance_collections 0 getcid_long))"
    using gl by (simp add: prod_eq_iff)
  have short: "\<exists>pl pkt. handed_over (cmdq instance_collections)
                  (cmdq (snd (lcb_getcid host instance_collections 0 getcid_s_c))) pl pkt
        \<and> drop 24 (kh_span pkt) = [0x73, 0x2E, 0x63]
        \<and> flags pkt AND MCREQ_F_NOCID = MCREQ_F_NOCID
        \<and> be_nat (take 2 (drop 2 (kh_span pkt))) = 3
        \<and> be_nat (take 4 (drop 8 (kh_span pkt))) = 3"
    using getcid_packet_layout [OF e v(1,2)] v by (auto simp: numeral_3_eq_3)
  have long: "\<exists>pl pkt. handed_over (cmdq instance_collections)
                  (cmdq (snd (lcb_getcid host instance_collections 0 getcid_long))) pl pkt
        \<and> drop 24 (kh_span pkt) = replicate 65535 0x73 @ [0x2E, 0x63]
        \<and> flags pkt AND MCREQ_F_NOCID = MCREQ_F_NOCID
        \<and> be_nat (take 4 (drop 8 (kh_span pkt))) = 65537"
    using getcid_packet_layout [OF el vl(1,2)] vl by auto
  from e v(1,2) short el long show ?thesis
    by blast
qed

section \<open>The magic byte of a durable remove or touch\<close>

text \<open>
  \<^verbatim>\<open>lcb_remove\<close> and \<^verbatim>\<open>lcb_touch\<close> set the magic byte to \<^verbatim>\<open>PROTOCOL_BINARY_AREQ\<close>
  when a durability level is given, and after \<^verbatim>\<open>mcreq_basic_packet\<close> set it to
  \<^verbatim>\<open>PROTOCOL_BINARY_REQ\<close> whatever the level is. The header that is copied into the packet
  has the second value.
\<close>

lemma take_memcpy:
  "n \<le> length src \<Longrightarrow> k \<le> n \<Longrightarrow> take k (memcpy dst src n) = take k src"
  using take_drop_memcpy [of n src 0 k dst] by simp

lemma delete_bytes_take:
  "k \<le> 24 \<Longrightarrow> take k (delete_bytes bo r) = take k (hdr_bytes bo (delete_header r))"
  using delete_bytes_head [of 0 k bo r] by simp

lemma touch_bytes_take:
  "k \<le> 24 \<Longrightarrow> take k (touch_bytes bo r) = take k (hdr_bytes bo (touch_header r))"
  using touch_bytes_head [of 0 k bo r] by simp

lemma remove_magic:
  fixes cmd :: lcb_CMDREMOVE
  assumes ok: "lcb_remove pf inst ck cmd = (LCB_SUCCESS, inst')" and dur: "dur_level cmd \<noteq> 0"
  shows "\<exists>pl pkt. handed_over (cmdq inst) (cmdq inst') pl pkt
           \<and> take 1 (kh_span pkt) = [PROTOCOL_BINARY_REQ]"
proof -
  from lcb_remove_success_durable [OF ok dur] obtain h pkt0 pl q' where
    bp: "mcreq_basic_packet pf (settings inst) (cmdq inst) cmd
           (zero_header\<lparr>req_magic := PROTOCOL_BINARY_AREQ\<rparr>) 0 4 MCREQ_BASICPACKET_F_FALLBACKOK
         = Inr (h, pkt0, pl, q')"
    by blast
  note facts = mcreq_basic_packet_Inr [OF bp]
  have "\<exists>pkt. cmdq inst' = LCB_SCHED_ADD q' pl pkt
          \<and> take 1 (kh_span pkt) = [PROTOCOL_BINARY_REQ]"
    using ok dur bp facts(3,4)
    apply (clarsimp simp: lcb_remove_def Let_def split: if_splits)
    apply (rule exI, rule conjI, rule refl)
    apply (simp add: take_memcpy length_delete_bytes delete_bytes_take
        hdr_bytes_magic [unfolded One_nat_def])
    done
  then show ?thesis
    using basic_packet_handed_over [OF bp] by metis
qed

lemma touch_magic:
  fixes cmd :: lcb_CMDTOUCH
  assumes ok: "lcb_touch pf tcmd inst ck cmd = (LCB_SUCCESS, inst')" and dur: "dur_level cmd \<noteq> 0"
  shows "\<exists>pl pkt. handed_over (cmdq inst) (cmdq inst') pl pkt
           \<and> take 1 (kh_span pkt) = [PROTOCOL_BINARY_REQ]"
proof -
  from lcb_touch_success_durable [OF ok dur] obtain h pkt0 pl q' where
    bp: "mcreq_basic_packet pf (settings inst) (cmdq inst) cmd
           ((touch_header tcmd)\<lparr>req_magic := PROTOCOL_BINARY_AREQ\<rparr>) 4 4
           MCREQ_BASICPACKET_F_FALLBACKOK
         = Inr (h, pkt0, pl, q')"
    by blast
  note facts = mcreq_basic_packet_Inr [OF bp]
  have "\<exists>pkt. cmdq inst' = LCB_SCHED_ADD q' pl pkt
          \<and> take 1 (kh_span pkt) = [PROTOCOL_BINARY_REQ]"
    using ok dur bp facts(3,4)
    apply (clarsimp simp: lcb_touch_def Let_def split: if_splits)
    apply (rule exI, rule conjI, rule refl)
    apply (simp add: take_memcpy length_touch_bytes touch_bytes_take body_alt_def
        length_mem16 length_mem32 hdr_bytes_magic [unfolded One_nat_def])
    done
  then show ?thesis
    using basic_packet_handed_over [OF bp] by metis
qed

text \<open>
  Claim C1 asks for the alternate-request magic byte in the header of a remove or touch with a
  durability level. On a cluster with synchronous replication, a remove and a touch of the key
  \<^verbatim>\<open>k\<close> with durability level 1 succeed; the packets carry the durability frame after the
  header, and their first byte is \<^verbatim>\<open>PROTOCOL_BINARY_REQ\<close>, not
  \<^verbatim>\<open>PROTOCOL_BINARY_AREQ\<close>.
\<close>

theorem durable_packets_have_request_magic:
  "dur_level cmd_majority \<noteq> 0 \<and> LCBT_SUPPORT_SYNCREPLICATION instance_plain
   \<and> fst (lcb_remove host instance_plain 0 cmd_majority) = LCB_SUCCESS
   \<and> take 1 (kh_span (sent (lcb_remove host instance_plain 0 cmd_majority)))
       = [PROTOCOL_BINARY_REQ]
   \<and> take 4 (drop 24 (kh_span (sent (lcb_remove host instance_plain 0 cmd_majority))))
       = [0x13, 0x01, 0x00, 0x00]
   \<and> fst (lcb_touch host stack_touch instance_plain 0 cmd_majority) = LCB_SUCCESS
   \<and> take 1 (kh_span (sent (lcb_touch host stack_touch instance_plain 0 cmd_majority)))
       = [PROTOCOL_BINARY_REQ]
   \<and> take 4 (drop 24 (kh_span (sent (lcb_touch host stack_touch instance_plain 0 cmd_majority))))
       = [0x13, 0x01, 0x00, 0x00]
   \<and> PROTOCOL_BINARY_REQ \<noteq> PROTOCOL_BINARY_AREQ"
  by (simp add: lcb_remove_def lcb_touch_def instance_plain_def cmd_majority_def stack_touch_def
      sent_def call_defs)

end
